theory Spec2Isabelle
  imports Main "HOL-Library.AList" "HOL-Library.Monad_Syntax" "HOL-Library.State_Monad"
begin

section \<open>Workflow objects\<close>

text \<open>
  The pipeline builders \<^verbatim>\<open>create_sca\<close> (CPAC/sca/sca.py) and \<^verbatim>\<open>create_seg_preproc\<close>
  (CPAC/seg_preproc/seg_preproc.py) create node objects, set some of their inputs, clone
  some of them under a new name and connect output ports to input ports of a workflow
  object. Scheduling and execution belong to the workflow engine and are not modelled:
  the embedding keeps what the builders themselves decide, namely which node objects
  exist, which interface and parameters each one has, and which port feeds which.
\<close>

text \<open>
  Python values, as far as the code meets them: node inputs, and the values the
  configuration serializer prints. A float keeps the literal of the source text.
\<close>

datatype pyvalue = VNone | VBool bool | VInt int | VFloat string | VStr string
  | VList "pyvalue list" | VTuple "pyvalue list" | VDict "(pyvalue \<times> pyvalue) list"

text \<open>
  Functions that the builders pass by reference (connection functions and the function of
  a Function interface). \<^verbatim>\<open>form_threshold_string\<close> is local to \<^verbatim>\<open>create_seg_preproc\<close>; the
  others are imported from the packages' utilities.
\<close>

datatype funcref = pick_wm_0 | pick_wm_1 | pick_wm_2 | form_threshold_string
  | set_gauss | pToFile

text \<open>The tool interfaces the builders instantiate.\<close>

datatype interface =
    IdentityInterface "string list"
  | Function "string list" "string list" funcref
  | FAST | FLIRT | ApplyWarp | MultiImageMaths | ImageMaths
  | ROIStats | Fim | Threedcalc

text \<open>
  A node object. \<open>oid\<close> is the identity of the Python object (the engine tells nodes
  apart by identity); \<open>iterfield\<close> is \<open>None\<close> for a \<^verbatim>\<open>pe.Node\<close> and the list of iterated
  input ports for a \<^verbatim>\<open>pe.MapNode\<close>.
\<close>

record node =
  oid :: nat
  name :: string
  interface :: interface
  iterfield :: "string list option"
  inputs :: "(string \<times> pyvalue) list"

text \<open>
  The source end of a connection: an output port, or a pair of an output port and a
  function applied to its value.
\<close>

datatype source = Out string | OutFn string funcref

record edge =
  src :: node
  out :: source
  dst :: node
  inp :: string

record workflow =
  wf_name :: string
  nodes :: "node list"
  edges :: "edge list"

text \<open>
  Object identities come from an allocation counter, threaded through every constructor
  call as the state of a state monad: it is the only state that one call of a builder
  hands on to the next.
\<close>

type_synonym heap = nat

definition Node :: "interface \<Rightarrow> string \<Rightarrow> (heap, node) state" where
  "Node i nm = State (\<lambda>h.
     (\<lparr>oid = h, name = nm, interface = i, iterfield = None, inputs = []\<rparr>, Suc h))"

definition MapNode :: "interface \<Rightarrow> string \<Rightarrow> string list \<Rightarrow> (heap, node) state" where
  "MapNode i nm flds = State (\<lambda>h.
     (\<lparr>oid = h, name = nm, interface = i, iterfield = Some flds, inputs = []\<rparr>, Suc h))"

text \<open>\<^verbatim>\<open>n.clone(nm)\<close>: a deep copy of the node, a new object, under the new name.\<close>

definition clone :: "node \<Rightarrow> string \<Rightarrow> (heap, node) state" where
  "clone n nm = State (\<lambda>h. (n\<lparr>oid := h, name := nm\<rparr>, Suc h))"

text \<open>\<^verbatim>\<open>n.inputs.k = v\<close>.\<close>

definition set_input :: "node \<Rightarrow> string \<Rightarrow> pyvalue \<Rightarrow> node" where
  "set_input n k v = n\<lparr>inputs := AList.update k v (inputs n)\<rparr>"

definition Workflow :: "string \<Rightarrow> workflow" where
  "Workflow nm = \<lparr>wf_name = nm, nodes = [], edges = []\<rparr>"

definition has_node :: "workflow \<Rightarrow> node \<Rightarrow> bool" where
  "has_node g n = (oid n \<in> set (map oid (nodes g)))"

definition add_node :: "workflow \<Rightarrow> node \<Rightarrow> workflow" where
  "add_node g n = (if has_node g n then g else g\<lparr>nodes := nodes g @ [n]\<rparr>)"

text \<open>
  \<^verbatim>\<open>g.connect(a, sp, b, dp)\<close>: both nodes join the workflow unless they are in it already,
  and the connection is recorded. Nodes that are never connected are not part of the
  workflow.
\<close>

definition connect :: "workflow \<Rightarrow> node \<Rightarrow> source \<Rightarrow> node \<Rightarrow> string \<Rightarrow> workflow" where
  "connect g a sp b dp =
     (let g' = add_node (add_node g a) b
      in g'\<lparr>edges := edges g' @ [\<lparr>src = a, out = sp, dst = b, inp = dp\<rparr>]\<rparr>)"

text \<open>
  A run of consecutive \<^verbatim>\<open>connect\<close> statements on the same workflow, written as the list
  of their arguments in source order.
\<close>

definition connects :: "workflow \<Rightarrow> (node \<times> source \<times> node \<times> string) list \<Rightarrow> workflow" where
  "connects g cs = foldl (\<lambda>g (a, sp, b, dp). connect g a sp b dp) g cs"

subsection \<open>Name-level views of a workflow\<close>

type_synonym link = "string \<times> source \<times> string \<times> string"

definition topology :: "workflow \<Rightarrow> link list" where
  "topology g = map (\<lambda>e. (name (src e), out e, name (dst e), inp e)) (edges g)"

definition node_names :: "workflow \<Rightarrow> string list" where
  "node_names g = map name (nodes g)"

type_synonym node_info = "string \<times> interface \<times> string list option \<times> (string \<times> pyvalue) list"

definition node_table :: "workflow \<Rightarrow> node_info list" where
  "node_table g = map (\<lambda>n. (name n, interface n, iterfield n, inputs n)) (nodes g)"

section \<open>The seed-based correlation workflow\<close>

definition create_sca :: "string \<Rightarrow> (heap, workflow) state" where
  "create_sca extraction_space = do {
     let rsfc = Workflow ''sca_workflow'';
     inputNode \<leftarrow> Node (IdentityInterface [''ref'', ''premat'', ''postmat'',
         ''rest_res_filt'', ''fieldcoeff_file'', ''rest_mask2standard'', ''standard''])
       ''inputspec'';
     inputnode_fwhm \<leftarrow> Node (IdentityInterface [''fwhm'']) ''fwhm_input'';
     inputnode_seed_list \<leftarrow> Node (IdentityInterface [''seed_list'']) ''seed_list_input'';
     outputNode \<leftarrow> Node (IdentityInterface [''correlations'', ''Z_trans_correlations'',
         ''Z_FWHM'', ''Z_2standard'', ''Z_2standard_FWHM''])
       ''outputspec'';
     printToFile \<leftarrow> MapNode (Function [''time_series''] [''ts_oneD''] pToFile)
       ''print_timeseries_to_file'' [''time_series''];
     warp_to_native \<leftarrow> MapNode ApplyWarp ''warp_to_native'' [''ref_file'', ''postmat''];
     let warp_to_native = set_input warp_to_native ''interp'' (VStr ''nn'');
     warp \<leftarrow> MapNode ApplyWarp ''warp_to_standard'' [''in_file'', ''premat''];
     warp_filt \<leftarrow> clone warp ''warp_to_standard_input_functional'';
     time_series \<leftarrow> MapNode ROIStats ''time_series'' [''in_file''];
     let time_series = set_input time_series ''quiet'' (VBool True);
     let time_series = set_input time_series ''mask_f2short'' (VBool True);
     corr \<leftarrow> MapNode Fim ''corr'' [''in_file'', ''ideal_file''];
     let corr = set_input corr ''fim_thr'' (VFloat ''0.0009'');
     let corr = set_input corr ''out'' (VStr ''Correlation'');
     z_trans \<leftarrow> MapNode Threedcalc ''z_trans'' [''infile_a''];
     let z_trans = set_input z_trans ''expr'' (VStr ([CHR 0x27] @ ''log((1+a)/(1-a))/2'' @ [CHR 0x27]));
     register \<leftarrow> MapNode ApplyWarp ''register'' [''premat'', ''in_file''];
     smooth \<leftarrow> MapNode MultiImageMaths ''smooth'' [''in_file'', ''operand_files''];
     smooth_mni \<leftarrow> clone smooth ''smooth_mni'';
     let rsfc =
       (if extraction_space = ''native'' then
          connects rsfc [
            (inputNode, Out ''ref'', warp_to_native, ''ref_file''),
            (inputNode, Out ''fieldcoeff_file'', warp_to_native, ''field_file''),
            (inputNode, Out ''postmat'', warp_to_native, ''postmat''),
            (inputnode_seed_list, Out ''seed_list'', warp_to_native, ''in_file''),
            (inputNode, Out ''rest_res_filt'', time_series, ''in_file''),
            (warp_to_native, Out ''out_file'', time_series, ''mask''),
            (time_series, Out ''stats'', printToFile, ''time_series''),
            (printToFile, Out ''ts_oneD'', corr, ''ideal_file''),
            (inputNode, Out ''rest_res_filt'', corr, ''in_file'')]
        else
          connects rsfc [
            (inputNode, Out ''rest_res_filt'', warp_filt, ''in_file''),
            (inputNode, Out ''standard'', warp_filt, ''ref_file''),
            (inputNode, Out ''fieldcoeff_file'', warp_filt, ''field_file''),
            (inputNode, Out ''premat'', warp_filt, ''premat''),
            (warp_filt, Out ''out_file'', time_series, ''in_file''),
            (time_series, Out ''stats'', printToFile, ''time_series''),
            (inputnode_seed_list, Out ''seed_list'', time_series, ''mask''),
            (printToFile, Out ''ts_oneD'', corr, ''ideal_file''),
            (inputNode, Out ''rest_res_filt'', corr, ''in_file'')]);
     let rsfc = connects rsfc [
        (corr, Out ''out_file'', z_trans, ''infile_a''),
        (z_trans, Out ''out_file'', warp, ''in_file''),
        (inputNode, Out ''standard'', warp, ''ref_file''),
        (inputNode, Out ''fieldcoeff_file'', warp, ''field_file''),
        (inputNode, Out ''premat'', warp, ''premat''),
        (warp, Out ''out_file'', smooth_mni, ''in_file''),
        (inputnode_fwhm, OutFn ''fwhm'' set_gauss, smooth_mni, ''op_string''),
        (inputNode, Out ''rest_mask2standard'', smooth_mni, ''operand_files''),
        (smooth_mni, Out ''out_file'', outputNode, ''Z_FWHM''),
        (corr, Out ''out_file'', outputNode, ''correlations''),
        (z_trans, Out ''out_file'', outputNode, ''Z_trans_correlations'')];
     State_Monad.return rsfc
   }"

section \<open>The segmentation workflow\<close>

definition create_seg_preproc :: "(heap, workflow) state" where
  "create_seg_preproc = do {
     let preproc = Workflow ''seg_preproc'';
     inputNode \<leftarrow> Node (IdentityInterface [''preprocessed_mask'', ''brain'',
         ''standard_res_brain'', ''example_func'', ''highres2example_func_mat'',
         ''stand2highres_warp'', ''PRIOR_CSF'', ''PRIOR_GRAY'', ''PRIOR_WHITE''])
       ''inputspec'';
     inputnode_csf_threshold \<leftarrow> Node (IdentityInterface [''csf_threshold'']) ''csf_threshold'';
     inputnode_wm_threshold \<leftarrow> Node (IdentityInterface [''wm_threshold'']) ''wm_threshold'';
     inputnode_gm_threshold \<leftarrow> Node (IdentityInterface [''gm_threshold'']) ''gm_threshold'';
     outputNode \<leftarrow> Node (IdentityInterface [''csf_t12func'', ''csf_mni2func'', ''csf_combo'',
         ''csf_bin'', ''csf_mask'', ''gm_t12func'', ''gm_mni2func'', ''gm_combo'', ''gm_bin'',
         ''gm_mask'', ''global_mask'', ''wm_t12func'', ''wm_mni2func'', ''wm_combo'', ''wm_bin'',
         ''probability_maps'', ''mixeltype'', ''partial_volume_map'', ''partial_volume_files'',
         ''wm_mask''])
       ''outputspec'';
     segment \<leftarrow> Node FAST ''segment'';
     let segment = set_input segment ''img_type'' (VInt 1);
     let segment = set_input segment ''segments'' (VBool True);
     let segment = set_input segment ''probability_maps'' (VBool True);
     let segment = set_input segment ''out_basename'' (VStr ''segment'');
     csf_t1_to_native \<leftarrow> MapNode FLIRT ''csf_t1_to_native'' [''reference'', ''in_matrix_file''];
     let csf_t1_to_native = set_input csf_t1_to_native ''apply_xfm'' (VBool True);
     csf_mni_to_native \<leftarrow> MapNode ApplyWarp ''csf_mni_to_native'' [''ref_file'', ''postmat''];
     let csf_mni_to_native = set_input csf_mni_to_native ''interp'' (VStr ''nn'');
     wm_mni_to_native \<leftarrow> clone csf_mni_to_native ''wm_mni_to_native'';
     overlap_csf_with_prior \<leftarrow> MapNode MultiImageMaths ''overlap_csf_with_prior''
       [''in_file'', ''operand_files''];
     let str1 = ''-mas %s '';
     let overlap_csf_with_prior = set_input overlap_csf_with_prior ''op_string'' (VStr str1);
     binarize_threshold_csf \<leftarrow> MapNode ImageMaths ''binarize_threshold_csf'' [''in_file''];
     csf_mask \<leftarrow> MapNode MultiImageMaths ''csf_mask'' [''in_file'', ''operand_files''];
     let str1 = ''-mas %s '';
     let csf_mask = set_input csf_mask ''op_string'' (VStr str1);
     overlap_wm_with_prior \<leftarrow> MapNode MultiImageMaths ''overlap_wm_with_prior''
       [''in_file'', ''operand_files''];
     let str1 = ''-mas %s '';
     let overlap_wm_with_prior = set_input overlap_wm_with_prior ''op_string'' (VStr str1);
     binarize_threshold_wm \<leftarrow> MapNode ImageMaths ''binarize_threshold_wm'' [''in_file''];
     wm_t1_to_native \<leftarrow> MapNode FLIRT ''wm_t1_to_native'' [''reference'', ''in_matrix_file''];
     let wm_t1_to_native = set_input wm_t1_to_native ''apply_xfm'' (VBool True);
     wm_mask \<leftarrow> clone csf_mask ''wm_mask'';
     gm_t1_to_native \<leftarrow> clone wm_t1_to_native ''gm_t1_to_native'';
     binarize_threshold_gm \<leftarrow> clone binarize_threshold_csf ''binarize_threshold_gm'';
     gm_mni_to_native \<leftarrow> clone wm_mni_to_native ''gm_mni_to_native'';
     overlap_gm_with_prior \<leftarrow> clone overlap_wm_with_prior ''overlap_gm_with_prior'';
     gm_mask \<leftarrow> clone csf_mask ''gm_mask'';
     let preproc = connects preproc [
        (inputNode, Out ''brain'', segment, ''in_files''),
        (segment, OutFn ''probability_maps'' pick_wm_0, csf_t1_to_native, ''in_file''),
        (inputNode, Out ''example_func'', csf_t1_to_native, ''reference''),
        (inputNode, Out ''highres2example_func_mat'', csf_t1_to_native, ''in_matrix_file''),
        (inputNode, Out ''example_func'', csf_mni_to_native, ''ref_file''),
        (inputNode, Out ''stand2highres_warp'', csf_mni_to_native, ''field_file''),
        (inputNode, Out ''PRIOR_CSF'', csf_mni_to_native, ''in_file''),
        (inputNode, Out ''highres2example_func_mat'', csf_mni_to_native, ''postmat''),
        (csf_t1_to_native, Out ''out_file'', overlap_csf_with_prior, ''in_file''),
        (csf_mni_to_native, Out ''out_file'', overlap_csf_with_prior, ''operand_files''),
        (overlap_csf_with_prior, Out ''out_file'', binarize_threshold_csf, ''in_file''),
        (inputnode_csf_threshold, OutFn ''csf_threshold'' form_threshold_string, binarize_threshold_csf, ''op_string''),
        (binarize_threshold_csf, Out ''out_file'', csf_mask, ''in_file''),
        (inputNode, Out ''preprocessed_mask'', csf_mask, ''operand_files''),
        (segment, OutFn ''probability_maps'' pick_wm_2, wm_t1_to_native, ''in_file''),
        (inputNode, Out ''example_func'', wm_t1_to_native, ''reference''),
        (inputNode, Out ''highres2example_func_mat'', wm_t1_to_native, ''in_matrix_file''),
        (inputNode, Out ''example_func'', wm_mni_to_native, ''ref_file''),
        (inputNode, Out ''stand2highres_warp'', wm_mni_to_native, ''field_file''),
        (inputNode, Out ''PRIOR_WHITE'', wm_mni_to_native, ''in_file''),
        (inputNode, Out ''highres2example_func_mat'', wm_mni_to_native, ''postmat''),
        (wm_t1_to_native, Out ''out_file'', overlap_wm_with_prior, ''in_file''),
        (wm_mni_to_native, Out ''out_file'', overlap_wm_with_prior, ''operand_files''),
        (overlap_wm_with_prior, Out ''out_file'', binarize_threshold_wm, ''in_file''),
        (inputnode_wm_threshold, OutFn ''wm_threshold'' form_threshold_string, binarize_threshold_wm, ''op_string''),
        (binarize_threshold_wm, Out ''out_file'', wm_mask, ''in_file''),
        (inputNode, Out ''preprocessed_mask'', wm_mask, ''operand_files''),
        (segment, OutFn ''probability_maps'' pick_wm_1, gm_t1_to_native, ''in_file''),
        (inputNode, Out ''example_func'', gm_t1_to_native, ''reference''),
        (inputNode, Out ''highres2example_func_mat'', gm_t1_to_native, ''in_matrix_file''),
        (inputNode, Out ''example_func'', gm_mni_to_native, ''ref_file''),
        (inputNode, Out ''stand2highres_warp'', gm_mni_to_native, ''field_file''),
        (inputNode, Out ''PRIOR_GRAY'', gm_mni_to_native, ''in_file''),
        (inputNode, Out ''highres2example_func_mat'', gm_mni_to_native, ''postmat''),
        (gm_t1_to_native, Out ''out_file'', overlap_gm_with_prior, ''in_file''),
        (gm_mni_to_native, Out ''out_file'', overlap_gm_with_prior, ''operand_files''),
        (overlap_gm_with_prior, Out ''out_file'', binarize_threshold_gm, ''in_file''),
        (inputnode_gm_threshold, OutFn ''gm_threshold'' form_threshold_string, binarize_threshold_gm, ''op_string''),
        (binarize_threshold_gm, Out ''out_file'', gm_mask, ''in_file''),
        (inputNode, Out ''preprocessed_mask'', gm_mask, ''operand_files''),
        (segment, Out ''probability_maps'', outputNode, ''probability_maps''),
        (segment, Out ''mixeltype'', outputNode, ''mixeltype''),
        (segment, Out ''partial_volume_files'', outputNode, ''partial_volume_files''),
        (segment, Out ''partial_volume_map'', outputNode, ''partial_volume_map''),
        (csf_t1_to_native, Out ''out_file'', outputNode, ''csf_t12func''),
        (csf_mni_to_native, Out ''out_file'', outputNode, ''csf_mni2func''),
        (overlap_csf_with_prior, Out ''out_file'', outputNode, ''csf_combo''),
        (binarize_threshold_csf, Out ''out_file'', outputNode, ''csf_bin''),
        (csf_mask, Out ''out_file'', outputNode, ''csf_mask''),
        (inputNode, Out ''preprocessed_mask'', outputNode, ''global_mask''),
        (wm_t1_to_native, Out ''out_file'', outputNode, ''wm_t12func''),
        (wm_mni_to_native, Out ''out_file'', outputNode, ''wm_mni2func''),
        (overlap_wm_with_prior, Out ''out_file'', outputNode, ''wm_combo''),
        (binarize_threshold_wm, Out ''out_file'', outputNode, ''wm_bin''),
        (wm_mask, Out ''out_file'', outputNode, ''wm_mask''),
        (gm_t1_to_native, Out ''out_file'', outputNode, ''gm_t12func''),
        (gm_mni_to_native, Out ''out_file'', outputNode, ''gm_mni2func''),
        (overlap_gm_with_prior, Out ''out_file'', outputNode, ''gm_combo''),
        (binarize_threshold_gm, Out ''out_file'', outputNode, ''gm_bin''),
        (gm_mask, Out ''out_file'', outputNode, ''gm_mask'')];
     State_Monad.return preproc
   }"

section \<open>Reading a workflow's shape\<close>

text \<open>
  The properties of the builders are stated on the name-level views: \<open>topology\<close> lists the
  connections in the order the builder made them, \<open>node_table\<close> the nodes in the order they
  joined the workflow. Node names are pairwise different in every workflow built here
  (lemmas \<open>seg_names_distinct\<close> and \<open>sca_names_distinct\<close>), so a name stands for one node.
\<close>

definition interface_of :: "node_info list \<Rightarrow> string \<Rightarrow> interface option" where
  "interface_of tab n = map_option fst (map_of tab n)"

definition input_of :: "node_info list \<Rightarrow> string \<Rightarrow> string \<Rightarrow> pyvalue option" where
  "input_of tab n k = (case map_of tab n of None \<Rightarrow> None | Some (i, it, ps) \<Rightarrow> map_of ps k)"

definition iterfield_of :: "node_info list \<Rightarrow> string \<Rightarrow> string list option" where
  "iterfield_of tab n = (case map_of tab n of None \<Rightarrow> None | Some (i, it, ps) \<Rightarrow> it)"

definition links_into :: "link list \<Rightarrow> string \<Rightarrow> link list" where
  "links_into t n = filter (\<lambda>(a, sp, b, dp). b = n) t"

definition links_from :: "link list \<Rightarrow> string \<Rightarrow> link list" where
  "links_from t n = filter (\<lambda>(a, sp, b, dp). a = n) t"

definition feeds :: "link list \<Rightarrow> string \<Rightarrow> string \<Rightarrow> (string \<times> source) list" where
  "feeds t n p = map (\<lambda>(a, sp, b, dp). (a, sp)) (filter (\<lambda>(a, sp, b, dp). b = n \<and> dp = p) t)"

definition succs :: "link list \<Rightarrow> string \<Rightarrow> string list" where
  "succs t n = remdups (map (\<lambda>(a, sp, b, dp). b) (links_from t n))"

definition preds :: "link list \<Rightarrow> string \<Rightarrow> string list" where
  "preds t n = remdups (map (\<lambda>(a, sp, b, dp). a) (links_into t n))"

text \<open>\<open>a\<close> is upstream of \<open>b\<close> when a chain of one or more connections leads from \<open>a\<close> to \<open>b\<close>.\<close>

definition link_rel :: "link list \<Rightarrow> (string \<times> string) set" where
  "link_rel t = {(a, b). b \<in> set (succs t a)}"

definition upstream :: "link list \<Rightarrow> string \<Rightarrow> string \<Rightarrow> bool" where
  "upstream t a b = ((a, b) \<in> (link_rel t)\<^sup>+)"

text \<open>
  A certificate that nodes are upstream of \<open>n\<close>: a list of hops \<open>(a, b)\<close>, each a
  connection from \<open>a\<close> to \<open>b\<close>, where \<open>b\<close> is \<open>n\<close> or the start of a hop further down
  the list.
\<close>

definition linked :: "link list \<Rightarrow> string \<Rightarrow> string \<Rightarrow> bool" where
  "linked t a b = list_ex (\<lambda>(a', sp, b', dp). a' = a \<and> b' = b) t"

fun hops_ok :: "link list \<Rightarrow> string \<Rightarrow> (string \<times> string) list \<Rightarrow> bool" where
  "hops_ok t n [] = True"
| "hops_ok t n ((a, b) # hs) =
     (hops_ok t n hs \<and> (b = n \<or> b \<in> set (map fst hs)) \<and> linked t a b)"

text \<open>A walk is a non-empty list of nodes in which each node is connected to the next.\<close>

fun walk :: "link list \<Rightarrow> string list \<Rightarrow> bool" where
  "walk t [] = False"
| "walk t [a] = True"
| "walk t (a # b # r) = (b \<in> set (succs t a) \<and> walk t (b # r))"

text \<open>All walks of exactly \<open>k\<close> connections that start at a node.\<close>

fun walks :: "nat \<Rightarrow> link list \<Rightarrow> string \<Rightarrow> string list list" where
  "walks 0 t a = [[a]]"
| "walks (Suc k) t a = concat (map (\<lambda>b. map ((#) a) (walks k t b)) (succs t a))"

text \<open>Single writer: no input port of a node object receives two connections.\<close>

definition single_writer :: "workflow \<Rightarrow> bool" where
  "single_writer g = distinct (map (\<lambda>e. (oid (dst e), inp e)) (edges g))"

text \<open>
  Two workflows are isomorphic when renaming the object identities by a function that is
  one-to-one on the first workflow's nodes turns the first into the second: same nodes
  (name, interface, iterated fields, inputs), same connections.
\<close>

definition rename_node :: "(nat \<Rightarrow> nat) \<Rightarrow> node \<Rightarrow> node" where
  "rename_node f n = n\<lparr>oid := f (oid n)\<rparr>"

definition rename :: "(nat \<Rightarrow> nat) \<Rightarrow> workflow \<Rightarrow> workflow" where
  "rename f g = g\<lparr>nodes := map (rename_node f) (nodes g),
     edges := map (\<lambda>e. e\<lparr>src := rename_node f (src e), dst := rename_node f (dst e)\<rparr>) (edges g)\<rparr>"

definition isomorphic :: "workflow \<Rightarrow> workflow \<Rightarrow> bool" where
  "isomorphic g g' = (\<exists>f. inj_on f (set (map oid (nodes g))) \<and> rename f g = g')"

subsection \<open>Shapes the builders are expected to produce\<close>

text \<open>
  Modelled from the spec: the functions \<^verbatim>\<open>pick_wm_0\<close>, \<^verbatim>\<open>pick_wm_1\<close> and \<^verbatim>\<open>pick_wm_2\<close> that
  \<^verbatim>\<open>create_seg_preproc\<close> passes to \<^verbatim>\<open>connect\<close> are imported from the package's
  utilities, which are not among the sources. The specification says that a tissue's
  probability map is selected by fixed channel index, 0 for CSF, 1 for GM and 2 for WM;
  \<open>channel\<close> gives the index each function selects.
\<close>

fun channel :: "funcref \<Rightarrow> nat option" where
  "channel pick_wm_0 = Some 0"
| "channel pick_wm_1 = Some 1"
| "channel pick_wm_2 = Some 2"
| "channel form_threshold_string = None"
| "channel set_gauss = None"
| "channel pToFile = None"

fun channel_of :: "source \<Rightarrow> nat option" where
  "channel_of (Out p) = None"
| "channel_of (OutFn p f) = channel f"

text \<open>
  A tissue branch, named by its final mask node: the mask node and everything upstream
  of it, except the two sources that all branches share.
\<close>

definition branch :: "link list \<Rightarrow> string \<Rightarrow> string set" where
  "branch t fin =
     {n. (n = fin \<or> upstream t n fin) \<and> n \<noteq> ''inputspec'' \<and> n \<noteq> ''segment''}"

text \<open>
  The shape of one tissue branch: \<open>t1\<close> is the linear and \<open>mni\<close> the nonlinear registration
  node, \<open>overlap\<close> the node that masks the one by the other, \<open>thn\<close> the threshold node
  with its threshold input node \<open>thr\<close>, and \<open>fin\<close> the final masking node.
\<close>

definition tissue_branch ::
  "link list \<Rightarrow> node_info list \<Rightarrow> string \<Rightarrow> string \<Rightarrow> string \<Rightarrow> string \<Rightarrow> string \<Rightarrow> string \<Rightarrow> bool"
where
  "tissue_branch t tab t1 mni overlap thn fin thr =
    ({n. upstream t n fin \<and> interface_of tab n = Some FLIRT} = {t1} \<and>
     {n. upstream t n fin \<and> interface_of tab n = Some ApplyWarp} = {mni} \<and>
     {n. upstream t n fin \<and> interface_of tab n = Some MultiImageMaths} = {overlap} \<and>
     {n. upstream t n fin \<and> interface_of tab n = Some ImageMaths} = {thn} \<and>
     interface_of tab fin = Some MultiImageMaths \<and>
     input_of tab mni ''interp'' = Some (VStr ''nn'') \<and>
     input_of tab overlap ''op_string'' = Some (VStr ''-mas %s '') \<and>
     input_of tab fin ''op_string'' = Some (VStr ''-mas %s '') \<and>
     feeds t overlap ''in_file'' = [(t1, Out ''out_file'')] \<and>
     feeds t overlap ''operand_files'' = [(mni, Out ''out_file'')] \<and>
     feeds t thn ''in_file'' = [(overlap, Out ''out_file'')] \<and>
     feeds t thn ''op_string'' = [(thr, OutFn thr form_threshold_string)] \<and>
     feeds t fin ''in_file'' = [(thn, Out ''out_file'')] \<and>
     feeds t fin ''operand_files'' = [(''inputspec'', Out ''preprocessed_mask'')] \<and>
     feeds t ''outputspec'' fin = [(fin, Out ''out_file'')] \<and>
     {p. walk t p \<and> hd p = ''segment'' \<and> last p = fin} =
       {[''segment'', t1, overlap, thn, fin]})"

text \<open>
  A seed-registration node: a node running the warp tool whose input image is the seed
  list.
\<close>

definition seed_registration_nodes :: "link list \<Rightarrow> node_info list \<Rightarrow> string list" where
  "seed_registration_nodes t tab =
     map fst (filter (\<lambda>(n, i, it, ps). i = ApplyWarp \<and>
       (''seed_list_input'', Out ''seed_list'') \<in> set (feeds t n ''in_file'')) tab)"

subsection \<open>Auxiliary functions for computing the node list\<close>

definition ins :: "node \<Rightarrow> node list \<Rightarrow> node list" where
  "ins n ns = (if oid n \<in> set (map oid ns) then ns else ns @ [n])"

definition ends :: "(node \<times> source \<times> node \<times> string) list \<Rightarrow> node list" where
  "ends cs = concat (map (\<lambda>(a, sp, b, dp). [a, b]) cs)"

fun firsts :: "nat list \<Rightarrow> node list \<Rightarrow> node list" where
  "firsts seen [] = []"
| "firsts seen (x # xs) =
     (if oid x \<in> set seen then firsts seen xs else x # firsts (oid x # seen) xs)"

fun fresh :: "nat list \<Rightarrow> nat list \<Rightarrow> bool list" where
  "fresh seen [] = []"
| "fresh seen (i # is) = (i \<notin> set seen) # fresh (if i \<in> set seen then seen else i # seen) is"

fun pickf :: "bool list \<Rightarrow> 'a list \<Rightarrow> 'a list" where
  "pickf (True # bs) (x # xs) = x # pickf bs xs"
| "pickf (False # bs) (x # xs) = pickf bs xs"
| "pickf [] xs = []"
| "pickf bs [] = []"

subsection \<open>The shapes the builders produce\<close>

text \<open>
  The connection lists and node tables below are what the builders return; the lemmas
  \<open>seg_topology\<close>, \<open>seg_node_table\<close>, \<open>sca_native_topology\<close>, \<open>sca_native_node_table\<close>,
  \<open>sca_mni_topology\<close> and \<open>sca_mni_node_table\<close> prove it from the builders' definitions.
\<close>

definition seg_links :: "link list" where
  "seg_links = [
   (''inputspec'', Out ''brain'', ''segment'', ''in_files''),
   (''segment'', OutFn ''probability_maps'' pick_wm_0, ''csf_t1_to_native'', ''in_file''),
   (''inputspec'', Out ''example_func'', ''csf_t1_to_native'', ''reference''),
   (''inputspec'', Out ''highres2example_func_mat'', ''csf_t1_to_native'', ''in_matrix_file''),
   (''inputspec'', Out ''example_func'', ''csf_mni_to_native'', ''ref_file''),
   (''inputspec'', Out ''stand2highres_warp'', ''csf_mni_to_native'', ''field_file''),
   (''inputspec'', Out ''PRIOR_CSF'', ''csf_mni_to_native'', ''in_file''),
   (''inputspec'', Out ''highres2example_func_mat'', ''csf_mni_to_native'', ''postmat''),
   (''csf_t1_to_native'', Out ''out_file'', ''overlap_csf_with_prior'', ''in_file''),
   (''csf_mni_to_native'', Out ''out_file'', ''overlap_csf_with_prior'', ''operand_files''),
   (''overlap_csf_with_prior'', Out ''out_file'', ''binarize_threshold_csf'', ''in_file''),
   (''csf_threshold'', OutFn ''csf_threshold'' form_threshold_string, ''binarize_threshold_csf'', ''op_string''),
   (''binarize_threshold_csf'', Out ''out_file'', ''csf_mask'', ''in_file''),
   (''inputspec'', Out ''preprocessed_mask'', ''csf_mask'', ''operand_files''),
   (''segment'', OutFn ''probability_maps'' pick_wm_2, ''wm_t1_to_native'', ''in_file''),
   (''inputspec'', Out ''example_func'', ''wm_t1_to_native'', ''reference''),
   (''inputspec'', Out ''highres2example_func_mat'', ''wm_t1_to_native'', ''in_matrix_file''),
   (''inputspec'', Out ''example_func'', ''wm_mni_to_native'', ''ref_file''),
   (''inputspec'', Out ''stand2highres_warp'', ''wm_mni_to_native'', ''field_file''),
   (''inputspec'', Out ''PRIOR_WHITE'', ''wm_mni_to_native'', ''in_file''),
   (''inputspec'', Out ''highres2example_func_mat'', ''wm_mni_to_native'', ''postmat''),
   (''wm_t1_to_native'', Out ''out_file'', ''overlap_wm_with_prior'', ''in_file''),
   (''wm_mni_to_native'', Out ''out_file'', ''overlap_wm_with_prior'', ''operand_files''),
   (''overlap_wm_with_prior'', Out ''out_file'', ''binarize_threshold_wm'', ''in_file''),
   (''wm_threshold'', OutFn ''wm_threshold'' form_threshold_string, ''binarize_threshold_wm'', ''op_string''),
   (''binarize_threshold_wm'', Out ''out_file'', ''wm_mask'', ''in_file''),
   (''inputspec'', Out ''preprocessed_mask'', ''wm_mask'', ''operand_files''),
   (''segment'', OutFn ''probability_maps'' pick_wm_1, ''gm_t1_to_native'', ''in_file''),
   (''inputspec'', Out ''example_func'', ''gm_t1_to_native'', ''reference''),
   (''inputspec'', Out ''highres2example_func_mat'', ''gm_t1_to_native'', ''in_matrix_file''),
   (''inputspec'', Out ''example_func'', ''gm_mni_to_native'', ''ref_file''),
   (''inputspec'', Out ''stand2highres_warp'', ''gm_mni_to_native'', ''field_file''),
   (''inputspec'', Out ''PRIOR_GRAY'', ''gm_mni_to_native'', ''in_file''),
   (''inputspec'', Out ''highres2example_func_mat'', ''gm_mni_to_native'', ''postmat''),
   (''gm_t1_to_native'', Out ''out_file'', ''overlap_gm_with_prior'', ''in_file''),
   (''gm_mni_to_native'', Out ''out_file'', ''overlap_gm_with_prior'', ''operand_files''),
   (''overlap_gm_with_prior'', Out ''out_file'', ''binarize_threshold_gm'', ''in_file''),
   (''gm_threshold'', OutFn ''gm_threshold'' form_threshold_string, ''binarize_threshold_gm'', ''op_string''),
   (''binarize_threshold_gm'', Out ''out_file'', ''gm_mask'', ''in_file''),
   (''inputspec'', Out ''preprocessed_mask'', ''gm_mask'', ''operand_files''),
   (''segment'', Out ''probability_maps'', ''outputspec'', ''probability_maps''),
   (''segment'', Out ''mixeltype'', ''outputspec'', ''mixeltype''),
   (''segment'', Out ''partial_volume_files'', ''outputspec'', ''partial_volume_files''),
   (''segment'', Out ''partial_volume_map'', ''outputspec'', ''partial_volume_map''),
   (''csf_t1_to_native'', Out ''out_file'', ''outputspec'', ''csf_t12func''),
   (''csf_mni_to_native'', Out ''out_file'', ''outputspec'', ''csf_mni2func''),
   (''overlap_csf_with_prior'', Out ''out_file'', ''outputspec'', ''csf_combo''),
   (''binarize_threshold_csf'', Out ''out_file'', ''outputspec'', ''csf_bin''),
   (''csf_mask'', Out ''out_file'', ''outputspec'', ''csf_mask''),
   (''inputspec'', Out ''preprocessed_mask'', ''outputspec'', ''global_mask''),
   (''wm_t1_to_native'', Out ''out_file'', ''outputspec'', ''wm_t12func''),
   (''wm_mni_to_native'', Out ''out_file'', ''outputspec'', ''wm_mni2func''),
   (''overlap_wm_with_prior'', Out ''out_file'', ''outputspec'', ''wm_combo''),
   (''binarize_threshold_wm'', Out ''out_file'', ''outputspec'', ''wm_bin''),
   (''wm_mask'', Out ''out_file'', ''outputspec'', ''wm_mask''),
   (''gm_t1_to_native'', Out ''out_file'', ''outputspec'', ''gm_t12func''),
   (''gm_mni_to_native'', Out ''out_file'', ''outputspec'', ''gm_mni2func''),
   (''overlap_gm_with_prior'', Out ''out_file'', ''outputspec'', ''gm_combo''),
   (''binarize_threshold_gm'', Out ''out_file'', ''outputspec'', ''gm_bin''),
   (''gm_mask'', Out ''out_file'', ''outputspec'', ''gm_mask'')]"

definition seg_table :: "node_info list" where
  "seg_table = [
   (''inputspec'', IdentityInterface [''preprocessed_mask'', ''brain'', ''standard_res_brain'', ''example_func'', ''highres2example_func_mat'', ''stand2highres_warp'', ''PRIOR_CSF'', ''PRIOR_GRAY'', ''PRIOR_WHITE''], None, []),
   (''segment'', FAST, None, [(''img_type'', VInt 1), (''segments'', VBool True), (''probability_maps'', VBool True), (''out_basename'', VStr ''segment'')]),
   (''csf_t1_to_native'', FLIRT, (Some [''reference'', ''in_matrix_file'']), [(''apply_xfm'', VBool True)]),
   (''csf_mni_to_native'', ApplyWarp, (Some [''ref_file'', ''postmat'']), [(''interp'', VStr ''nn'')]),
   (''overlap_csf_with_prior'', MultiImageMaths, (Some [''in_file'', ''operand_files'']), [(''op_string'', VStr ''-mas %s '')]),
   (''binarize_threshold_csf'', ImageMaths, (Some [''in_file'']), []),
   (''csf_threshold'', IdentityInterface [''csf_threshold''], None, []),
   (''csf_mask'', MultiImageMaths, (Some [''in_file'', ''operand_files'']), [(''op_string'', VStr ''-mas %s '')]),
   (''wm_t1_to_native'', FLIRT, (Some [''reference'', ''in_matrix_file'']), [(''apply_xfm'', VBool True)]),
   (''wm_mni_to_native'', ApplyWarp, (Some [''ref_file'', ''postmat'']), [(''interp'', VStr ''nn'')]),
   (''overlap_wm_with_prior'', MultiImageMaths, (Some [''in_file'', ''operand_files'']), [(''op_string'', VStr ''-mas %s '')]),
   (''binarize_threshold_wm'', ImageMaths, (Some [''in_file'']), []),
   (''wm_threshold'', IdentityInterface [''wm_threshold''], None, []),
   (''wm_mask'', MultiImageMaths, (Some [''in_file'', ''operand_files'']), [(''op_string'', VStr ''-mas %s '')]),
   (''gm_t1_to_native'', FLIRT, (Some [''reference'', ''in_matrix_file'']), [(''apply_xfm'', VBool True)]),
   (''gm_mni_to_native'', ApplyWarp, (Some [''ref_file'', ''postmat'']), [(''interp'', VStr ''nn'')]),
   (''overlap_gm_with_prior'', MultiImageMaths, (Some [''in_file'', ''operand_files'']), [(''op_string'', VStr ''-mas %s '')]),
   (''binarize_threshold_gm'', ImageMaths, (Some [''in_file'']), []),
   (''gm_threshold'', IdentityInterface [''gm_threshold''], None, []),
   (''gm_mask'', MultiImageMaths, (Some [''in_file'', ''operand_files'']), [(''op_string'', VStr ''-mas %s '')]),
   (''outputspec'', IdentityInterface [''csf_t12func'', ''csf_mni2func'', ''csf_combo'', ''csf_bin'', ''csf_mask'', ''gm_t12func'', ''gm_mni2func'', ''gm_combo'', ''gm_bin'', ''gm_mask'', ''global_mask'', ''wm_t12func'', ''wm_mni2func'', ''wm_combo'', ''wm_bin'', ''probability_maps'', ''mixeltype'', ''partial_volume_map'', ''partial_volume_files'', ''wm_mask''], None, [])]"

definition sca_native_links :: "link list" where
  "sca_native_links = [
   (''inputspec'', Out ''ref'', ''warp_to_native'', ''ref_file''),
   (''inputspec'', Out ''fieldcoeff_file'', ''warp_to_native'', ''field_file''),
   (''inputspec'', Out ''postmat'', ''warp_to_native'', ''postmat''),
   (''seed_list_input'', Out ''seed_list'', ''warp_to_native'', ''in_file''),
   (''inputspec'', Out ''rest_res_filt'', ''time_series'', ''in_file''),
   (''warp_to_native'', Out ''out_file'', ''time_series'', ''mask''),
   (''time_series'', Out ''stats'', ''print_timeseries_to_file'', ''time_series''),
   (''print_timeseries_to_file'', Out ''ts_oneD'', ''corr'', ''ideal_file''),
   (''inputspec'', Out ''rest_res_filt'', ''corr'', ''in_file''),
   (''corr'', Out ''out_file'', ''z_trans'', ''infile_a''),
   (''z_trans'', Out ''out_file'', ''warp_to_standard'', ''in_file''),
   (''inputspec'', Out ''standard'', ''warp_to_standard'', ''ref_file''),
   (''inputspec'', Out ''fieldcoeff_file'', ''warp_to_standard'', ''field_file''),
   (''inputspec'', Out ''premat'', ''warp_to_standard'', ''premat''),
   (''warp_to_standard'', Out ''out_file'', ''smooth_mni'', ''in_file''),
   (''fwhm_input'', OutFn ''fwhm'' set_gauss, ''smooth_mni'', ''op_string''),
   (''inputspec'', Out ''rest_mask2standard'', ''smooth_mni'', ''operand_files''),
   (''smooth_mni'', Out ''out_file'', ''outputspec'', ''Z_FWHM''),
   (''corr'', Out ''out_file'', ''outputspec'', ''correlations''),
   (''z_trans'', Out ''out_file'', ''outputspec'', ''Z_trans_correlations'')]"

definition sca_native_table :: "node_info list" where
  "sca_native_table = [
   (''inputspec'', IdentityInterface [''ref'', ''premat'', ''postmat'', ''rest_res_filt'', ''fieldcoeff_file'', ''rest_mask2standard'', ''standard''], None, []),
   (''warp_to_native'', ApplyWarp, (Some [''ref_file'', ''postmat'']), [(''interp'', VStr ''nn'')]),
   (''seed_list_input'', IdentityInterface [''seed_list''], None, []),
   (''time_series'', ROIStats, (Some [''in_file'']), [(''quiet'', VBool True), (''mask_f2short'', VBool True)]),
   (''print_timeseries_to_file'', Function [''time_series''] [''ts_oneD''] pToFile, (Some [''time_series'']), []),
   (''corr'', Fim, (Some [''in_file'', ''ideal_file'']), [(''fim_thr'', VFloat ''0.0009''), (''out'', VStr ''Correlation'')]),
   (''z_trans'', Threedcalc, (Some [''infile_a'']), [(''expr'', VStr ([CHR 0x27] @ ''log((1+a)/(1-a))/2'' @ [CHR 0x27]))]),
   (''warp_to_standard'', ApplyWarp, (Some [''in_file'', ''premat'']), []),
   (''smooth_mni'', MultiImageMaths, (Some [''in_file'', ''operand_files'']), []),
   (''fwhm_input'', IdentityInterface [''fwhm''], None, []),
   (''outputspec'', IdentityInterface [''correlations'', ''Z_trans_correlations'', ''Z_FWHM'', ''Z_2standard'', ''Z_2standard_FWHM''], None, [])]"

definition sca_mni_links :: "link list" where
  "sca_mni_links = [
   (''inputspec'', Out ''rest_res_filt'', ''warp_to_standard_input_functional'', ''in_file''),
   (''inputspec'', Out ''standard'', ''warp_to_standard_input_functional'', ''ref_file''),
   (''inputspec'', Out ''fieldcoeff_file'', ''warp_to_standard_input_functional'', ''field_file''),
   (''inputspec'', Out ''premat'', ''warp_to_standard_input_functional'', ''premat''),
   (''warp_to_standard_input_functional'', Out ''out_file'', ''time_series'', ''in_file''),
   (''time_series'', Out ''stats'', ''print_timeseries_to_file'', ''time_series''),
   (''seed_list_input'', Out ''seed_list'', ''time_series'', ''mask''),
   (''print_timeseries_to_file'', Out ''ts_oneD'', ''corr'', ''ideal_file''),
   (''inputspec'', Out ''rest_res_filt'', ''corr'', ''in_file''),
   (''corr'', Out ''out_file'', ''z_trans'', ''infile_a''),
   (''z_trans'', Out ''out_file'', ''warp_to_standard'', ''in_file''),
   (''inputspec'', Out ''standard'', ''warp_to_standard'', ''ref_file''),
   (''inputspec'', Out ''fieldcoeff_file'', ''warp_to_standard'', ''field_file''),
   (''inputspec'', Out ''premat'', ''warp_to_standard'', ''premat''),
   (''warp_to_standard'', Out ''out_file'', ''smooth_mni'', ''in_file''),
   (''fwhm_input'', OutFn ''fwhm'' set_gauss, ''smooth_mni'', ''op_string''),
   (''inputspec'', Out ''rest_mask2standard'', ''smooth_mni'', ''operand_files''),
   (''smooth_mni'', Out ''out_file'', ''outputspec'', ''Z_FWHM''),
   (''corr'', Out ''out_file'', ''outputspec'', ''correlations''),
   (''z_trans'', Out ''out_file'', ''outputspec'', ''Z_trans_correlations'')]"

definition sca_mni_table :: "node_info list" where
  "sca_mni_table = [
   (''inputspec'', IdentityInterface [''ref'', ''premat'', ''postmat'', ''rest_res_filt'', ''fieldcoeff_file'', ''rest_mask2standard'', ''standard''], None, []),
   (''warp_to_standard_input_functional'', ApplyWarp, (Some [''in_file'', ''premat'']), []),
   (''time_series'', ROIStats, (Some [''in_file'']), [(''quiet'', VBool True), (''mask_f2short'', VBool True)]),
   (''print_timeseries_to_file'', Function [''time_series''] [''ts_oneD''] pToFile, (Some [''time_series'']), []),
   (''seed_list_input'', IdentityInterface [''seed_list''], None, []),
   (''corr'', Fim, (Some [''in_file'', ''ideal_file'']), [(''fim_thr'', VFloat ''0.0009''), (''out'', VStr ''Correlation'')]),
   (''z_trans'', Threedcalc, (Some [''infile_a'']), [(''expr'', VStr ([CHR 0x27] @ ''log((1+a)/(1-a))/2'' @ [CHR 0x27]))]),
   (''warp_to_standard'', ApplyWarp, (Some [''in_file'', ''premat'']), []),
   (''smooth_mni'', MultiImageMaths, (Some [''in_file'', ''operand_files'']), []),
   (''fwhm_input'', IdentityInterface [''fwhm''], None, []),
   (''outputspec'', IdentityInterface [''correlations'', ''Z_trans_correlations'', ''Z_FWHM'', ''Z_2standard'', ''Z_2standard_FWHM''], None, [])]"

section \<open>The model configuration window\<close>

text \<open>
  \<^verbatim>\<open>ModelConfig\<close> (CPAC/GUI/interface/utils/modelconfig_window.py) validates the fields of a
  form and writes them to a configuration file. The window toolkit, the file system and
  Python's own functions are outside the repository: \<^verbatim>\<open>os.path.exists\<close>, \<^verbatim>\<open>int\<close>,
  \<^verbatim>\<open>ast.literal_eval\<close> and the table \<^verbatim>\<open>substitution_map\<close> of the constants module are
  parameters of the functions below.
\<close>

subsection \<open>Python strings and exceptions\<close>

datatype exn = ValueError | TypeError | SyntaxError

text \<open>The characters \<^verbatim>\<open>str.strip()\<close> removes: space, tab, newline, vertical tab,
  form feed and carriage return.\<close>

definition isspace :: "char \<Rightarrow> bool" where
  "isspace c = (c \<in> set [CHR '' '', CHR 0x09, CHR 0x0A, CHR 0x0B, CHR 0x0C, CHR 0x0D])"

definition str_strip :: "string \<Rightarrow> string" where
  "str_strip s = rev (dropWhile isspace (rev (dropWhile isspace s)))"

text \<open>\<^verbatim>\<open>s.split(c)\<close> for a one-character separator: the empty string gives one empty piece.\<close>

fun str_split :: "char \<Rightarrow> string \<Rightarrow> string list" where
  "str_split c [] = [[]]"
| "str_split c (x # xs) =
     (if x = c then [] # str_split c xs
      else (case str_split c xs of w # ws \<Rightarrow> (x # w) # ws | [] \<Rightarrow> [[x]]))"

subsection \<open>validate\<close>

text \<open>
  \<^verbatim>\<open>config_map\<close> maps a field name to \<^verbatim>\<open>[win, value, validation]\<close>: the control, the text
  entered and whether paths in it are checked. It is an association list in the order in
  which \<^verbatim>\<open>iteritems\<close> yields the items; \<^verbatim>\<open>config_map.get\<close> is \<open>map_of\<close>. The user interface
  is the list of error boxes shown so far, each with the control it marks.
\<close>

type_synonym win = nat
type_synonym entry = "win \<times> string \<times> bool"
type_synonym config_map = "(string \<times> entry) list"
type_synonym gui = "(win \<times> string) list"
type_synonym 'a outcome = "(exn + 'a) \<times> gui"

text \<open>\<^verbatim>\<open>display\<close> shows the message, marks the control and raises \<^verbatim>\<open>ValueError\<close>.\<close>

definition display :: "win \<Rightarrow> string \<Rightarrow> gui \<Rightarrow> 'a outcome" where
  "display win msg ui = (Inl ValueError, ui @ [(win, msg)])"

text \<open>Sequencing of statements that may raise, and a guarded statement.\<close>

definition and_then :: "'a outcome \<Rightarrow> ('a \<Rightarrow> gui \<Rightarrow> 'b outcome) \<Rightarrow> 'b outcome" where
  "and_then r f = (case r of (Inl e, ui) \<Rightarrow> (Inl e, ui) | (Inr x, ui) \<Rightarrow> f x ui)"

definition guarded :: "bool \<Rightarrow> (gui \<Rightarrow> unit outcome) \<Rightarrow> gui \<Rightarrow> unit outcome" where
  "guarded b f ui = (if b then f ui else (Inr (), ui))"

text \<open>\<^verbatim>\<open>[int(v) for v in vs]\<close>: the first piece that is no integer raises \<^verbatim>\<open>ValueError\<close>.\<close>

fun ints :: "(string \<Rightarrow> int option) \<Rightarrow> string list \<Rightarrow> exn + int list" where
  "ints py_int [] = Inr []"
| "ints py_int (v # vs) =
     (case py_int v of
        None \<Rightarrow> Inl ValueError
      | Some i \<Rightarrow> (case ints py_int vs of Inl e \<Rightarrow> Inl e | Inr js \<Rightarrow> Inr (i # js)))"

text \<open>\<^verbatim>\<open>for v in value: if v not in [1, 0]: self.display(...)\<close>\<close>

fun check_binary :: "win \<Rightarrow> int list \<Rightarrow> gui \<Rightarrow> unit outcome" where
  "check_binary win [] ui = (Inr (), ui)"
| "check_binary win (v # vs) ui =
     (if v \<notin> set [1, 0]
      then display win ''Invalid Entry. Only 1 and 0 entry allowed'' ui
      else check_binary win vs ui)"

text \<open>
  The block under \<^verbatim>\<open>if key == 'categoricalVsDirectional' or key == 'deMean'\<close>.
\<close>

definition check_values ::
  "(string \<Rightarrow> int option) \<Rightarrow> string list \<Rightarrow> string \<Rightarrow> win \<Rightarrow> string \<Rightarrow> gui \<Rightarrow> unit outcome"
where
  "check_values py_int columns key win v ui =
     (case ints py_int (str_split CHR '','' v) of
        Inl e \<Rightarrow> (Inl e, ui)
      | Inr value \<Rightarrow>
          and_then (check_binary win value ui) (\<lambda>_.
            guarded (length value \<noteq> length columns)
              (display win (''Number of values in '' @ key @
                '' do not match specified columns in the model''))))"

text \<open>The block under \<^verbatim>\<open>if key == 'groupingVariable'\<close>.\<close>

definition check_grouping ::
  "config_map \<Rightarrow> string list \<Rightarrow> string \<Rightarrow> win \<Rightarrow> string \<Rightarrow> gui \<Rightarrow> unit outcome"
where
  "check_grouping config_map columns key win v ui =
     (case map_of config_map ''modelGroupVariancesSeparately'' of
        None \<Rightarrow> (Inl TypeError, ui)
      | Some (w, separately, vld) \<Rightarrow>
          guarded (separately = ''On'')
            (\<lambda>ui. and_then
               (guarded (length v = 0) (display win (key @ '' field is empty!'')) ui) (\<lambda>_.
               guarded (v \<notin> set columns)
                 (display win
                   ''Grouping variable/column not a valid column in the model. Please verify the name'')))
            ui)"

text \<open>The body of the loop over the items of \<^verbatim>\<open>config_map\<close>.\<close>

definition check_item ::
  "(string \<Rightarrow> bool) \<Rightarrow> (string \<Rightarrow> int option) \<Rightarrow> config_map \<Rightarrow> string list \<Rightarrow>
   string \<times> entry \<Rightarrow> gui \<Rightarrow> unit outcome"
where
  "check_item path_exists py_int config_map columns item ui0 =
     (case item of (key, win, v, validation) \<Rightarrow>
      and_then (guarded (key \<noteq> ''groupingVariable'' \<and> length v = 0)
          (display win (key @ '' field is empty!'')) ui0) (\<lambda>_ ui1.
      and_then (guarded (CHR ''/'' \<in> set v \<and> validation)
          (guarded (\<not> path_exists v)
            (display win
              (key @ '' field contains incorrect path. Please enter correct path!''))) ui1)
        (\<lambda>_ ui2.
      and_then (guarded (key = ''categoricalVsDirectional'' \<or> key = ''deMean'')
          (check_values py_int columns key win v) ui2) (\<lambda>_ ui3.
      guarded (key = ''groupingVariable'') (check_grouping config_map columns key win v) ui3))))"

fun for_items ::
  "(string \<times> entry \<Rightarrow> gui \<Rightarrow> unit outcome) \<Rightarrow> config_map \<Rightarrow> gui \<Rightarrow> unit outcome"
where
  "for_items body [] ui = (Inr (), ui)"
| "for_items body (item # items) ui =
     (case body item ui of
        (Inl e, ui') \<Rightarrow> (Inl e, ui')
      | (Inr u, ui') \<Rightarrow> for_items body items ui')"

text \<open>
  The body of the \<^verbatim>\<open>try\<close> block. A missing key makes \<^verbatim>\<open>config_map.get\<close> return \<^verbatim>\<open>None\<close>,
  and indexing \<^verbatim>\<open>None\<close> raises \<^verbatim>\<open>TypeError\<close>.
\<close>

definition validate_body ::
  "(string \<Rightarrow> bool) \<Rightarrow> (string \<Rightarrow> int option) \<Rightarrow> config_map \<Rightarrow> gui \<Rightarrow> int outcome"
where
  "validate_body path_exists py_int config_map ui =
     (case map_of config_map ''columnsInModel'' of
        None \<Rightarrow> (Inl TypeError, ui)
      | Some (cwin, cv, cvld) \<Rightarrow>
          let columns = map str_strip (str_split CHR '','' cv)
          in if columns = []
             then and_then (display cwin ''No columns specified for the model'' ui :: unit outcome)
                    (\<lambda>u ui'. (Inr (- 1), ui'))
             else and_then
                    (for_items (check_item path_exists py_int config_map columns) config_map ui)
                    (\<lambda>u ui'. (Inr 1, ui')))"

text \<open>\<^verbatim>\<open>except Exception: return -1\<close>\<close>

definition validate ::
  "(string \<Rightarrow> bool) \<Rightarrow> (string \<Rightarrow> int option) \<Rightarrow> config_map \<Rightarrow> gui \<Rightarrow> int \<times> gui"
where
  "validate path_exists py_int config_map ui =
     (case validate_body path_exists py_int config_map ui of
        (Inl e, ui') \<Rightarrow> (- 1, ui')
      | (Inr r, ui') \<Rightarrow> (r, ui'))"

text \<open>
  What it means that every check passes, item by item: a field other than the grouping
  variable is not empty; a field with a slash whose paths are checked names an existing
  path; the categorical and the demean list hold integers, each 0 or 1, as many as the
  model has columns; and, when group variances are modelled separately, the grouping
  variable is one of the model's columns.
\<close>

definition item_passes ::
  "(string \<Rightarrow> bool) \<Rightarrow> (string \<Rightarrow> int option) \<Rightarrow> config_map \<Rightarrow> string list \<Rightarrow>
   string \<times> entry \<Rightarrow> bool"
where
  "item_passes path_exists py_int config_map columns item =
     (case item of (key, win, v, validation) \<Rightarrow>
        (key = ''groupingVariable'' \<or> v \<noteq> []) \<and>
        (CHR ''/'' \<notin> set v \<or> \<not> validation \<or> path_exists v) \<and>
        (if key = ''categoricalVsDirectional'' \<or> key = ''deMean''
         then (case ints py_int (str_split CHR '','' v) of
                 Inl e \<Rightarrow> False
               | Inr value \<Rightarrow>
                   list_all (\<lambda>i. i = 1 \<or> i = 0) value \<and> length value = length columns)
         else True) \<and>
        (if key = ''groupingVariable''
         then (case map_of config_map ''modelGroupVariancesSeparately'' of
                 None \<Rightarrow> False
               | Some (w, separately, vld) \<Rightarrow>
                   separately \<noteq> ''On'' \<or> (v \<noteq> [] \<and> v \<in> set columns))
         else True))"

definition all_checks_pass ::
  "(string \<Rightarrow> bool) \<Rightarrow> (string \<Rightarrow> int option) \<Rightarrow> config_map \<Rightarrow> bool"
where
  "all_checks_pass path_exists py_int config_map =
     (case map_of config_map ''columnsInModel'' of
        None \<Rightarrow> False
      | Some (cwin, cv, cvld) \<Rightarrow>
          list_all (item_passes path_exists py_int config_map
            (map str_strip (str_split CHR '','' cv))) config_map)"

text \<open>
  The inputs on which nothing but \<^verbatim>\<open>display\<close> can raise: the keys that \<^verbatim>\<open>validate\<close> looks
  up are present and the pieces of the categorical and the demean list are integers.
\<close>

definition item_only_display ::
  "(string \<Rightarrow> int option) \<Rightarrow> config_map \<Rightarrow> string \<times> entry \<Rightarrow> bool"
where
  "item_only_display py_int config_map item =
     (case item of (key, win, v, validation) \<Rightarrow>
        (if key = ''categoricalVsDirectional'' \<or> key = ''deMean''
         then list_all (\<lambda>s. py_int s \<noteq> None) (str_split CHR '','' v) else True) \<and>
        (if key = ''groupingVariable''
         then map_of config_map ''modelGroupVariancesSeparately'' \<noteq> None else True))"

definition only_display_raises :: "(string \<Rightarrow> int option) \<Rightarrow> config_map \<Rightarrow> bool" where
  "only_display_raises py_int config_map =
     (map_of config_map ''columnsInModel'' \<noteq> None \<and>
      list_all (item_only_display py_int config_map) config_map)"

text \<open>
  The three ways a block of checks can end: all pass; \<^verbatim>\<open>display\<close> shows one error box and
  raises; or something else raises (\<^verbatim>\<open>int\<close>, or indexing a missing key).
\<close>

definition passed :: "unit outcome \<Rightarrow> gui \<Rightarrow> bool" where
  "passed r ui = (r = (Inr (), ui))"

definition boxed :: "unit outcome \<Rightarrow> gui \<Rightarrow> bool" where
  "boxed r ui = (\<exists>w msg. r = (Inl ValueError, ui @ [(w, msg)]))"

definition crashed :: "unit outcome \<Rightarrow> gui \<Rightarrow> bool" where
  "crashed r ui = (\<exists>e. r = (Inl e, ui))"

subsection \<open>The loop of save that writes the file\<close>

text \<open>
  A field is \<^verbatim>\<open>(name, value, dtype, help)\<close>. The file is the list of the \<^verbatim>\<open>print\<close> statements
  executed on it, each with the values it prints; Python writes them separated by single
  spaces and ends the statement with a newline.
\<close>

type_synonym field = "string \<times> string \<times> int \<times> string"

datatype printed = Print "pyvalue list"

text \<open>\<^verbatim>\<open>[v for v in x]\<close>: the elements of a list or tuple, the characters of a string, the
  keys of a dictionary; other values are not iterable.\<close>

definition py_iter :: "pyvalue \<Rightarrow> exn + pyvalue list" where
  "py_iter x =
     (case x of
        VList xs \<Rightarrow> Inr xs
      | VTuple xs \<Rightarrow> Inr xs
      | VStr s \<Rightarrow> Inr (map (\<lambda>c. VStr [c]) s)
      | VDict kvs \<Rightarrow> Inr (map fst kvs)
      | _ \<Rightarrow> Inl TypeError)"

definition field_value ::
  "(string \<Rightarrow> exn + pyvalue) \<Rightarrow> (string \<Rightarrow> pyvalue option) \<Rightarrow> field \<Rightarrow> exn + pyvalue"
where
  "field_value literal_eval substitution_map item =
     (case item of (nm, v, dtype, help) \<Rightarrow>
        if dtype = 2 then
          (case substitution_map v of
             None \<Rightarrow> literal_eval v
           | Some x \<Rightarrow> if x = VNone then literal_eval v else Inr x)
        else if dtype = 5 then
          (case literal_eval v of
             Inl e \<Rightarrow> Inl e
           | Inr x \<Rightarrow> (case py_iter x of Inl e \<Rightarrow> Inl e | Inr xs \<Rightarrow> Inr (VList xs)))
        else if dtype = 4 then
          Inr (VList (map (\<lambda>s. VStr (str_strip s)) (str_split CHR '','' v)))
        else Inr (VStr v))"

definition field_lines :: "field \<Rightarrow> pyvalue \<Rightarrow> printed list" where
  "field_lines item value =
     (case item of (nm, v, dtype, help) \<Rightarrow>
        map (\<lambda>lines. Print [VStr ''#'', VStr lines]) (str_split (CHR 0x0A) help) @
        [Print [VStr nm, VStr '': '', value, VStr [CHR 0x0A]]])"

text \<open>
  \<^verbatim>\<open>for item in config_list\<close>: the value is computed first, so an exception leaves the file
  as the fields before have written it; \<^verbatim>\<open>save\<close> prints a message and raises it again.
\<close>

fun save_fields ::
  "(string \<Rightarrow> exn + pyvalue) \<Rightarrow> (string \<Rightarrow> pyvalue option) \<Rightarrow> field list \<Rightarrow>
   printed list \<Rightarrow> (exn + unit) \<times> printed list"
where
  "save_fields literal_eval substitution_map [] f = (Inr (), f)"
| "save_fields literal_eval substitution_map (item # items) f =
     (case field_value literal_eval substitution_map item of
        Inl e \<Rightarrow> (Inl e, f)
      | Inr value \<Rightarrow>
          save_fields literal_eval substitution_map items (f @ field_lines item value))"

definition evaluates ::
  "(string \<Rightarrow> exn + pyvalue) \<Rightarrow> (string \<Rightarrow> pyvalue option) \<Rightarrow> field \<Rightarrow> bool"
where
  "evaluates literal_eval substitution_map item =
     (case field_value literal_eval substitution_map item of Inl e \<Rightarrow> False | Inr x \<Rightarrow> True)"

text \<open>
  The value the specification describes for a field whose value evaluates: for type code 2
  the alias of the substitution map or else the evaluated literal, for type code 5 the list
  of the evaluated literal's elements, for type code 4 the list of the stripped pieces
  between commas, and the string itself otherwise.
\<close>

definition written_value ::
  "(string \<Rightarrow> exn + pyvalue) \<Rightarrow> (string \<Rightarrow> pyvalue option) \<Rightarrow> field \<Rightarrow> pyvalue"
where
  "written_value literal_eval substitution_map item =
     (case item of (nm, v, dtype, help) \<Rightarrow>
        if dtype = 2 then
          (case substitution_map v of
             None \<Rightarrow> projr (literal_eval v)
           | Some x \<Rightarrow> if x = VNone then projr (literal_eval v) else x)
        else if dtype = 5 then VList (projr (py_iter (projr (literal_eval v))))
        else if dtype = 4 then VList (map (\<lambda>s. VStr (str_strip s)) (str_split CHR '','' v))
        else VStr v)"

definition block ::
  "(string \<Rightarrow> exn + pyvalue) \<Rightarrow> (string \<Rightarrow> pyvalue option) \<Rightarrow> field \<Rightarrow> printed list"
where
  "block literal_eval substitution_map item =
     (case item of (nm, v, dtype, help) \<Rightarrow>
        map (\<lambda>l. Print [VStr ''#'', VStr l]) (str_split (CHR 0x0A) help) @
        [Print [VStr nm, VStr '': '', written_value literal_eval substitution_map item,
           VStr [CHR 0x0A]]])"

subsection \<open>Sample values of the parameters\<close>

text \<open>
  Values of Python's functions at a few arguments, to run the definitions on concrete
  inputs. Outside the listed arguments the tables raise; they are not models of the
  functions.
\<close>

definition literal_eval_sample :: "string \<Rightarrow> exn + pyvalue" where
  "literal_eval_sample s =
     (if s = ''0,1'' then Inr (VTuple [VInt 0, VInt 1])
      else if s = ''1'' then Inr (VInt 1)
      else if s = ''7'' then Inr (VInt 7)
      else Inl SyntaxError)"

definition substitution_map_sample :: "string \<Rightarrow> pyvalue option" where
  "substitution_map_sample = map_of [(''On'', VInt 1), (''Off'', VInt 0)]"

definition py_int_sample :: "string \<Rightarrow> int option" where
  "py_int_sample s =
     (if s = ''0'' then Some 0 else if s = ''1'' then Some 1 else if s = ''2'' then Some 2
      else None)"

definition path_exists_sample :: "string \<Rightarrow> bool" where
  "path_exists_sample p = (p = ''/data/subjects.txt'')"

(* ==== lemmas ==== *)

section \<open>Facts about the workflow operations\<close>

text \<open>
  \<open>connect\<close> appends the connection and lets each end join the node list once. The nodes
  of a workflow built from scratch are therefore the first occurrences, by identity, among
  the ends of its connections.
\<close>

lemma edges_connect:
  "edges (connect g a sp b dp) = edges g @ [\<lparr>src = a, out = sp, dst = b, inp = dp\<rparr>]"
  by (simp add: connect_def add_node_def Let_def)

lemma nodes_connect: "nodes (connect g a sp b dp) = ins b (ins a (nodes g))"
  by (simp add: connect_def add_node_def has_node_def Let_def ins_def)

lemma wf_name_connect: "wf_name (connect g a sp b dp) = wf_name g"
  by (simp add: connect_def add_node_def Let_def)

lemma edges_connects:
  "edges (connects g cs) =
     edges g @ map (\<lambda>(a, sp, b, dp). \<lparr>src = a, out = sp, dst = b, inp = dp\<rparr>) cs"
  unfolding connects_def
  by (induction cs arbitrary: g) (auto simp: edges_connect)

lemma wf_name_connects: "wf_name (connects g cs) = wf_name g"
  unfolding connects_def
  by (induction cs arbitrary: g) (auto simp: wf_name_connect)

lemma firsts_cong_set: "set seen = set seen' \<Longrightarrow> firsts seen xs = firsts seen' xs"
proof (induction xs arbitrary: seen seen')
  case Nil
  then show ?case by simp
next
  case (Cons x xs)
  have "set (oid x # seen) = set (oid x # seen')" using Cons.prems by simp
  then have "firsts (oid x # seen) xs = firsts (oid x # seen') xs" by (rule Cons.IH)
  moreover have "firsts seen xs = firsts seen' xs" using Cons.prems by (rule Cons.IH)
  ultimately show ?case using Cons.prems by simp
qed

lemma foldl_ins_firsts: "foldl (\<lambda>ns n. ins n ns) ns xs = ns @ firsts (map oid ns) xs"
proof (induction xs arbitrary: ns)
  case Nil
  then show ?case by simp
next
  case (Cons x xs)
  show ?case
  proof (cases "oid x \<in> set (map oid ns)")
    case True
    then show ?thesis using Cons.IH [of ns] by (simp add: ins_def)
  next
    case False
    have "firsts (map oid (ns @ [x])) xs = firsts (oid x # map oid ns) xs"
      by (rule firsts_cong_set) auto
    then show ?thesis using False Cons.IH [of "ns @ [x]"] by (simp add: ins_def)
  qed
qed

lemma nodes_connects_foldl:
  "nodes (connects g cs) = foldl (\<lambda>ns n. ins n ns) (nodes g) (ends cs)"
  unfolding connects_def ends_def
  by (induction cs arbitrary: g) (auto simp: nodes_connect)

lemma firsts_pickf: "firsts seen xs = pickf (fresh seen (map oid xs)) xs"
  by (induction xs arbitrary: seen) auto

lemma nodes_connects:
  "nodes (connects g cs) =
     nodes g @ pickf (fresh (map oid (nodes g)) (map oid (ends cs))) (ends cs)"
  by (simp add: nodes_connects_foldl foldl_ins_firsts firsts_pickf)

lemma topology_connects:
  "topology (connects g cs) = topology g @ map (\<lambda>(a, sp, b, dp). (name a, sp, name b, dp)) cs"
  by (simp add: topology_def edges_connects case_prod_unfold)

lemma topology_Workflow: "topology (Workflow w) = []"
  by (simp add: topology_def Workflow_def)

lemma nodes_Workflow: "nodes (Workflow w) = []"
  by (simp add: Workflow_def)

lemma edges_Workflow: "edges (Workflow w) = []"
  by (simp add: Workflow_def)

text \<open>Renaming identities by a one-to-one function commutes with connecting.\<close>

lemma oid_rename_node: "oid (rename_node f n) = f (oid n)"
  by (simp add: rename_node_def)

lemma map_rename_ins:
  assumes "inj f"
  shows "map (rename_node f) (ins n ns) = ins (rename_node f n) (map (rename_node f) ns)"
proof -
  have "(f (oid n) \<in> f ` oid ` set ns) = (oid n \<in> oid ` set ns)"
    using assms by (auto simp: inj_def)
  then show ?thesis
    by (simp add: ins_def oid_rename_node image_image)
qed

lemma nodes_rename: "nodes (rename f g) = map (rename_node f) (nodes g)"
  by (simp add: rename_def)

lemma edges_rename:
  "edges (rename f g) =
     map (\<lambda>e. e\<lparr>src := rename_node f (src e), dst := rename_node f (dst e)\<rparr>) (edges g)"
  by (simp add: rename_def)

lemma wf_name_rename: "wf_name (rename f g) = wf_name g"
  by (simp add: rename_def)

lemma rename_connect:
  assumes "inj f"
  shows "rename f (connect g a sp b dp) =
    connect (rename f g) (rename_node f a) sp (rename_node f b) dp"
proof (rule workflow.equality)
  show "wf_name (rename f (connect g a sp b dp)) =
      wf_name (connect (rename f g) (rename_node f a) sp (rename_node f b) dp)"
    by (simp add: wf_name_rename wf_name_connect)
  show "nodes (rename f (connect g a sp b dp)) =
      nodes (connect (rename f g) (rename_node f a) sp (rename_node f b) dp)"
    by (simp add: nodes_rename nodes_connect map_rename_ins [OF assms])
  show "edges (rename f (connect g a sp b dp)) =
      edges (connect (rename f g) (rename_node f a) sp (rename_node f b) dp)"
    by (simp add: edges_rename edges_connect)
  show "workflow.more (rename f (connect g a sp b dp)) =
      workflow.more (connect (rename f g) (rename_node f a) sp (rename_node f b) dp)"
    by simp
qed

lemma rename_connects:
  assumes "inj f"
  shows "rename f (connects g cs) =
    connects (rename f g) (map (\<lambda>(a, sp, b, dp). (rename_node f a, sp, rename_node f b, dp)) cs)"
  unfolding connects_def
  by (induction cs arbitrary: g) (auto simp: rename_connect [OF assms])

lemma rename_Workflow: "rename f (Workflow w) = Workflow w"
  by (simp add: rename_def Workflow_def)

lemma rename_node_literal:
  "rename_node f \<lparr>oid = i, name = nm, interface = ifc, iterfield = it, inputs = ps\<rparr> =
     \<lparr>oid = f i, name = nm, interface = ifc, iterfield = it, inputs = ps\<rparr>"
  by (simp add: rename_node_def)

lemma set_input_literal:
  "set_input \<lparr>oid = i, name = nm, interface = ifc, iterfield = it, inputs = ps\<rparr> k v =
     \<lparr>oid = i, name = nm, interface = ifc, iterfield = it, inputs = AList.update k v ps\<rparr>"
  by (simp add: set_input_def)

lemma topology_rename: "topology (rename f g) = topology g"
  by (simp add: topology_def rename_def rename_node_def comp_def)

lemma node_table_rename: "node_table (rename f g) = node_table g"
  by (simp add: node_table_def rename_def rename_node_def comp_def)

lemma oids_rename: "map oid (nodes (rename f g)) = map f (map oid (nodes g))"
  by (simp add: rename_def rename_node_def comp_def)

lemma inj_shift: "inj (\<lambda>i::nat. i + d)"
  by (simp add: inj_def)

lemmas unfold_builder = Let_def run_state_bind run_state_return Node_def MapNode_def
  clone_def state.sel prod.case fst_conv snd_conv

section \<open>The shape of the segmentation workflow\<close>

lemma seg_topology: "topology (fst (run_state create_seg_preproc h)) = seg_links"
  apply (simp only: create_seg_preproc_def unfold_builder)
  apply (simp add: topology_connects topology_Workflow set_input_literal seg_links_def)
  done

lemma seg_node_table: "node_table (fst (run_state create_seg_preproc h)) = seg_table"
  apply (simp only: create_seg_preproc_def unfold_builder)
  apply (simp add: node_table_def nodes_connects nodes_Workflow ends_def set_input_literal
      seg_table_def)
  done

lemma seg_heap: "snd (run_state create_seg_preproc h) = h + 21"
  by (simp only: create_seg_preproc_def unfold_builder)

lemma seg_oids:
  "map oid (nodes (fst (run_state create_seg_preproc h))) =
     map (\<lambda>k. h + k) [0, 5, 6, 7, 9, 10, 1, 11, 14, 8, 12, 13, 2, 15, 16, 18, 19, 17, 3, 20, 4]"
  apply (simp only: create_seg_preproc_def unfold_builder)
  apply (simp add: nodes_connects nodes_Workflow ends_def set_input_literal)
  done

lemma seg_single_writer: "single_writer (fst (run_state create_seg_preproc h))"
  apply (simp only: create_seg_preproc_def unfold_builder)
  apply (simp add: single_writer_def edges_connects edges_Workflow set_input_literal)
  done

lemma seg_shift:
  "fst (run_state create_seg_preproc (h + d)) =
     rename (\<lambda>i. i + d) (fst (run_state create_seg_preproc h))"
  apply (simp only: create_seg_preproc_def unfold_builder)
  apply (simp add: rename_connects [OF inj_shift] rename_Workflow rename_node_literal
      set_input_literal)
  done

section \<open>The shape of the seed-based correlation workflow\<close>

text \<open>Every mode flag other than \<^verbatim>\<open>'native'\<close> takes the \<^verbatim>\<open>else\<close> branch.\<close>

lemma create_sca_else: "m \<noteq> ''native'' \<Longrightarrow> create_sca m = create_sca ''mni''"
proof -
  assume "m \<noteq> ''native''"
  then have a: "(m = ''native'') = False" by simp
  have b: "(''mni'' = ''native'') = False" by simp
  show ?thesis
    by (simp only: create_sca_def a b if_False)
qed

lemma sca_native_topology:
  "topology (fst (run_state (create_sca ''native'') h)) = sca_native_links"
  apply (simp only: create_sca_def unfold_builder simp_thms if_True)
  apply (simp add: topology_connects topology_Workflow set_input_literal sca_native_links_def)
  done

lemma sca_native_node_table:
  "node_table (fst (run_state (create_sca ''native'') h)) = sca_native_table"
  apply (simp only: create_sca_def unfold_builder simp_thms if_True)
  apply (simp add: node_table_def nodes_connects nodes_Workflow ends_def set_input_literal
      sca_native_table_def)
  done

lemma sca_native_oids:
  "map oid (nodes (fst (run_state (create_sca ''native'') h))) =
     map (\<lambda>k. h + k) [0, 5, 2, 8, 4, 9, 10, 6, 13, 1, 3]"
  apply (simp only: create_sca_def unfold_builder simp_thms if_True)
  apply (simp add: nodes_connects nodes_Workflow ends_def set_input_literal)
  done

lemma sca_native_single_writer: "single_writer (fst (run_state (create_sca ''native'') h))"
  apply (simp only: create_sca_def unfold_builder simp_thms if_True)
  apply (simp add: single_writer_def edges_connects edges_Workflow set_input_literal)
  done

lemma sca_native_shift:
  "fst (run_state (create_sca ''native'') (h + d)) =
     rename (\<lambda>i. i + d) (fst (run_state (create_sca ''native'') h))"
  apply (simp only: create_sca_def unfold_builder simp_thms if_True)
  apply (simp add: rename_connects [OF inj_shift] rename_Workflow rename_node_literal
      set_input_literal)
  done

lemma mni_not_native: "(''mni'' = ''native'') = False"
  by simp

lemma sca_mni_topology:
  "topology (fst (run_state (create_sca ''mni'') h)) = sca_mni_links"
  apply (simp only: create_sca_def unfold_builder mni_not_native if_False)
  apply (simp add: topology_connects topology_Workflow set_input_literal sca_mni_links_def)
  done

lemma sca_mni_node_table:
  "node_table (fst (run_state (create_sca ''mni'') h)) = sca_mni_table"
  apply (simp only: create_sca_def unfold_builder mni_not_native if_False)
  apply (simp add: node_table_def nodes_connects nodes_Workflow ends_def set_input_literal
      sca_mni_table_def)
  done

lemma sca_mni_oids:
  "map oid (nodes (fst (run_state (create_sca ''mni'') h))) =
     map (\<lambda>k. h + k) [0, 7, 8, 4, 2, 9, 10, 6, 13, 1, 3]"
  apply (simp only: create_sca_def unfold_builder mni_not_native if_False)
  apply (simp add: nodes_connects nodes_Workflow ends_def set_input_literal)
  done

lemma sca_mni_single_writer: "single_writer (fst (run_state (create_sca ''mni'') h))"
  apply (simp only: create_sca_def unfold_builder mni_not_native if_False)
  apply (simp add: single_writer_def edges_connects edges_Workflow set_input_literal)
  done

lemma sca_mni_shift:
  "fst (run_state (create_sca ''mni'') (h + d)) =
     rename (\<lambda>i. i + d) (fst (run_state (create_sca ''mni'') h))"
  apply (simp only: create_sca_def unfold_builder mni_not_native if_False)
  apply (simp add: rename_connects [OF inj_shift] rename_Workflow rename_node_literal
      set_input_literal)
  done

lemma sca_heap: "snd (run_state (create_sca m) h) = h + 14"
  by (simp only: create_sca_def unfold_builder)

section \<open>Facts about upstream nodes and walks\<close>

lemma in_succs: "b \<in> set (succs t a) \<longleftrightarrow> (\<exists>sp dp. (a, sp, b, dp) \<in> set t)"
  by (force simp: succs_def links_from_def)

lemma in_preds: "a \<in> set (preds t b) \<longleftrightarrow> (\<exists>sp dp. (a, sp, b, dp) \<in> set t)"
  by (force simp: preds_def links_into_def)

lemma preds_iff_succs: "a \<in> set (preds t b) \<longleftrightarrow> b \<in> set (succs t a)"
  by (simp add: in_succs in_preds)

lemma succs_upstream: "b \<in> set (succs t a) \<Longrightarrow> upstream t a b"
  by (simp add: upstream_def link_rel_def r_into_trancl')

lemma upstream_trans: "upstream t a b \<Longrightarrow> upstream t b c \<Longrightarrow> upstream t a c"
  unfolding upstream_def by (rule trancl_trans)

lemma linked_succs: "linked t a b \<longleftrightarrow> b \<in> set (succs t a)"
  by (auto simp: linked_def list_ex_iff in_succs)

lemma hops_sound: "hops_ok t n hs \<Longrightarrow> a \<in> set (map fst hs) \<Longrightarrow> upstream t a n"
proof (induction hs arbitrary: a)
  case Nil
  then show ?case by simp
next
  case (Cons h hs)
  obtain x y where h: "h = (x, y)" by (cases h)
  with Cons.prems have ok: "hops_ok t n hs" and y: "y = n \<or> y \<in> set (map fst hs)"
    and l: "upstream t x y"
    by (simp_all add: linked_succs succs_upstream)
  have x: "upstream t x n"
  proof (cases "y = n")
    case True
    with l show ?thesis by simp
  next
    case False
    with y have "upstream t y n" using Cons.IH [OF ok] by blast
    with l show ?thesis by (rule upstream_trans)
  qed
  show ?case
  proof (cases "a = x")
    case True
    with x show ?thesis by simp
  next
    case False
    with Cons.prems h have "a \<in> set (map fst hs)" by auto
    then show ?thesis using Cons.IH [OF ok] by blast
  qed
qed

lemma upstream_closed:
  assumes closed: "\<And>a b. b \<in> set (succs t a) \<Longrightarrow> b = n \<or> b \<in> S \<Longrightarrow> a \<in> S"
    and up: "upstream t a n"
  shows "a \<in> S"
proof -
  from up have "(a, n) \<in> (link_rel t)\<^sup>+" by (simp add: upstream_def)
  then show ?thesis
  proof (induction rule: converse_trancl_induct)
    case (base y)
    then show ?case using closed [of n y] by (simp add: link_rel_def)
  next
    case (step y z)
    then show ?case using closed [of z y] by (simp add: link_rel_def)
  qed
qed

text \<open>
  When the starts of a list of hops towards \<open>n\<close> are closed under predecessors, they are
  all the nodes upstream of \<open>n\<close>.
\<close>

lemma upstream_set:
  assumes found: "hops_ok t n hs"
    and closed: "list_all (\<lambda>(a, sp, b, dp). (b \<noteq> n \<and> b \<notin> set (map fst hs)) \<or> a \<in> set (map fst hs)) t"
  shows "{a. upstream t a n} = set (map fst hs)"
proof
  show "set (map fst hs) \<subseteq> {a. upstream t a n}"
    using found hops_sound by blast
  have "\<And>a b. b \<in> set (succs t a) \<Longrightarrow> b = n \<or> b \<in> set (map fst hs) \<Longrightarrow> a \<in> set (map fst hs)"
  proof -
    fix a b
    assume "b \<in> set (succs t a)" and b: "b = n \<or> b \<in> set (map fst hs)"
    then obtain sp dp where "(a, sp, b, dp) \<in> set t"
      by (auto simp: in_succs)
    with closed have "(b \<noteq> n \<and> b \<notin> set (map fst hs)) \<or> a \<in> set (map fst hs)"
      by (auto simp: list_all_iff)
    with b show "a \<in> set (map fst hs)" by blast
  qed
  then show "{a. upstream t a n} \<subseteq> set (map fst hs)"
    using upstream_closed [of t n "set (map fst hs)"] by blast
qed

text \<open>Evaluation without case distinctions on long lists.\<close>

lemma filter_pickf: "filter P xs = pickf (map P xs) xs"
  by (induction xs) auto

lemma map_of_pickf:
  "map_of tab n = (case pickf (map (\<lambda>r. fst r = n) tab) tab of [] \<Rightarrow> None | r # rs \<Rightarrow> Some (snd r))"
  by (induction tab) auto

lemmas fast_eval = filter_pickf map_of_pickf links_into_def links_from_def feeds_def succs_def
  preds_def interface_of_def input_of_def iterfield_of_def linked_def

lemma upstream_filter:
  "{a. upstream t a n} = set S \<Longrightarrow> {a. upstream t a n \<and> P a} = set (filter P S)"
  by auto

lemma branch_filter:
  "{a. upstream t a n} = set S \<Longrightarrow>
   branch t n = set (filter (\<lambda>x. x \<noteq> ''inputspec'' \<and> x \<noteq> ''segment'') (n # S))"
  by (auto simp: branch_def)

lemma node_names_table: "node_names g = map fst (node_table g)"
  by (simp add: node_names_def node_table_def comp_def)

lemmas walks_numeral = walks.simps(2) [of "pred_numeral k" for k, folded numeral_eq_Suc]

lemma walks_walk: "p \<in> set (walks k t a) \<Longrightarrow> walk t p \<and> hd p = a \<and> length p = Suc k"
proof (induction k arbitrary: a p)
  case 0
  then show ?case by simp
next
  case (Suc k)
  then obtain b q where b: "b \<in> set (succs t a)" and q: "q \<in> set (walks k t b)" and p: "p = a # q"
    by auto
  from Suc.IH [OF q] have w: "walk t q" "hd q = b" "length q = Suc k" by simp_all
  then obtain r where "q = b # r" by (cases q) auto
  with b w p show ?case by simp
qed

lemma walk_in_walks: "walk t p \<Longrightarrow> p \<in> set (walks (length p - 1) t (hd p))"
proof (induction t p rule: walk.induct)
  case (1 t)
  then show ?case by simp
next
  case (2 t a)
  then show ?case by simp
next
  case (3 t a b r)
  then have "b \<in> set (succs t a)" and "b # r \<in> set (walks (length r) t b)"
    by simp_all
  then show ?case by auto
qed

lemma walks_empty_Suc: "walks k t a = [] \<Longrightarrow> walks (Suc k) t a = []"
proof (induction k arbitrary: a)
  case 0
  then show ?case by simp
next
  case (Suc k)
  then have "\<forall>b \<in> set (succs t a). walks k t b = []" by auto
  then have "\<forall>b \<in> set (succs t a). walks (Suc k) t b = []" using Suc.IH by blast
  then show ?case by simp
qed

lemma walks_empty_ge: "walks k t a = [] \<Longrightarrow> k \<le> j \<Longrightarrow> walks j t a = []"
proof (induction j)
  case 0
  then show ?case by simp
next
  case (Suc j)
  show ?case
  proof (cases "k = Suc j")
    case True
    then show ?thesis using Suc.prems by simp
  next
    case False
    then have "k \<le> j" using Suc.prems by simp
    then have "walks j t a = []" using Suc by blast
    then show ?thesis by (rule walks_empty_Suc)
  qed
qed

text \<open>
  When no walk of \<open>K\<close> connections starts at \<open>a\<close>, the walks from \<open>a\<close> to \<open>b\<close> are among the
  walks of fewer than \<open>K\<close> connections.
\<close>

lemma walks_between:
  assumes "walks K t a = []"
  shows "{p. walk t p \<and> hd p = a \<and> last p = b} =
    set (filter (\<lambda>p. last p = b) (concat (map (\<lambda>k. walks k t a) [0..<K])))"
proof (rule set_eqI, rule iffI)
  fix p
  assume "p \<in> {p. walk t p \<and> hd p = a \<and> last p = b}"
  then have w: "walk t p" "hd p = a" "last p = b" by simp_all
  then have m: "p \<in> set (walks (length p - 1) t a)" using walk_in_walks by blast
  have "length p - 1 < K"
  proof (rule ccontr)
    assume "\<not> length p - 1 < K"
    then have "walks (length p - 1) t a = []" using assms walks_empty_ge by simp
    with m show False by simp
  qed
  with m w show "p \<in> set (filter (\<lambda>p. last p = b) (concat (map (\<lambda>k. walks k t a) [0..<K])))"
    by auto
next
  fix p
  assume "p \<in> set (filter (\<lambda>p. last p = b) (concat (map (\<lambda>k. walks k t a) [0..<K])))"
  then obtain k where "p \<in> set (walks k t a)" "last p = b" by auto
  then show "p \<in> {p. walk t p \<and> hd p = a \<and> last p = b}"
    using walks_walk by blast
qed

section \<open>Properties of the segmentation workflow\<close>

lemma seg_names_distinct: "distinct (node_names (fst (run_state create_seg_preproc h)))"
  by (simp add: node_names_table seg_node_table seg_table_def)

lemma seg_upstream_csf:
  "{a. upstream seg_links a ''csf_mask''} =
     set [''segment'', ''csf_threshold'', ''inputspec'', ''csf_mni_to_native'',
       ''csf_t1_to_native'', ''overlap_csf_with_prior'', ''binarize_threshold_csf'']"
  using upstream_set [where t = seg_links and n = "''csf_mask''" and hs = "[
    (''segment'', ''csf_t1_to_native''), (''csf_threshold'', ''binarize_threshold_csf''),
    (''inputspec'', ''csf_mask''), (''csf_mni_to_native'', ''overlap_csf_with_prior''),
    (''csf_t1_to_native'', ''overlap_csf_with_prior''),
    (''overlap_csf_with_prior'', ''binarize_threshold_csf''),
    (''binarize_threshold_csf'', ''csf_mask'')]"]
  by (simp add: seg_links_def linked_def)

lemma seg_upstream_gm:
  "{a. upstream seg_links a ''gm_mask''} =
     set [''segment'', ''gm_threshold'', ''inputspec'', ''gm_mni_to_native'',
       ''gm_t1_to_native'', ''overlap_gm_with_prior'', ''binarize_threshold_gm'']"
  using upstream_set [where t = seg_links and n = "''gm_mask''" and hs = "[
    (''segment'', ''gm_t1_to_native''), (''gm_threshold'', ''binarize_threshold_gm''),
    (''inputspec'', ''gm_mask''), (''gm_mni_to_native'', ''overlap_gm_with_prior''),
    (''gm_t1_to_native'', ''overlap_gm_with_prior''),
    (''overlap_gm_with_prior'', ''binarize_threshold_gm''),
    (''binarize_threshold_gm'', ''gm_mask'')]"]
  by (simp add: seg_links_def linked_def)

lemma seg_upstream_wm:
  "{a. upstream seg_links a ''wm_mask''} =
     set [''segment'', ''wm_threshold'', ''inputspec'', ''wm_mni_to_native'',
       ''wm_t1_to_native'', ''overlap_wm_with_prior'', ''binarize_threshold_wm'']"
  using upstream_set [where t = seg_links and n = "''wm_mask''" and hs = "[
    (''segment'', ''wm_t1_to_native''), (''wm_threshold'', ''binarize_threshold_wm''),
    (''inputspec'', ''wm_mask''), (''wm_mni_to_native'', ''overlap_wm_with_prior''),
    (''wm_t1_to_native'', ''overlap_wm_with_prior''),
    (''overlap_wm_with_prior'', ''binarize_threshold_wm''),
    (''binarize_threshold_wm'', ''wm_mask'')]"]
  by (simp add: seg_links_def linked_def)

lemma seg_succs:
  "succs seg_links ''segment'' =
     [''csf_t1_to_native'', ''wm_t1_to_native'', ''gm_t1_to_native'', ''outputspec'']"
  "succs seg_links ''outputspec'' = []"
  "succs seg_links ''csf_t1_to_native'' = [''overlap_csf_with_prior'', ''outputspec'']"
  "succs seg_links ''gm_t1_to_native'' = [''overlap_gm_with_prior'', ''outputspec'']"
  "succs seg_links ''wm_t1_to_native'' = [''overlap_wm_with_prior'', ''outputspec'']"
  "succs seg_links ''overlap_csf_with_prior'' = [''binarize_threshold_csf'', ''outputspec'']"
  "succs seg_links ''overlap_gm_with_prior'' = [''binarize_threshold_gm'', ''outputspec'']"
  "succs seg_links ''overlap_wm_with_prior'' = [''binarize_threshold_wm'', ''outputspec'']"
  "succs seg_links ''binarize_threshold_csf'' = [''csf_mask'', ''outputspec'']"
  "succs seg_links ''binarize_threshold_gm'' = [''gm_mask'', ''outputspec'']"
  "succs seg_links ''binarize_threshold_wm'' = [''wm_mask'', ''outputspec'']"
  "succs seg_links ''csf_mask'' = [''outputspec'']"
  "succs seg_links ''gm_mask'' = [''outputspec'']"
  "succs seg_links ''wm_mask'' = [''outputspec'']"
  by (simp_all add: seg_links_def fast_eval)

lemma seg_walks_end: "walks 6 seg_links ''segment'' = []"
  by (simp add: walks_numeral seg_succs)

lemma seg_walks_csf:
  "filter (\<lambda>p. last p = ''csf_mask'') (concat (map (\<lambda>k. walks k seg_links ''segment'') [0..<6])) =
     [[''segment'', ''csf_t1_to_native'', ''overlap_csf_with_prior'', ''binarize_threshold_csf'',
       ''csf_mask'']]"
  by (simp add: walks_numeral seg_succs upt_rec [of _ "numeral k" for k])

lemma seg_walks_gm:
  "filter (\<lambda>p. last p = ''gm_mask'') (concat (map (\<lambda>k. walks k seg_links ''segment'') [0..<6])) =
     [[''segment'', ''gm_t1_to_native'', ''overlap_gm_with_prior'', ''binarize_threshold_gm'',
       ''gm_mask'']]"
  by (simp add: walks_numeral seg_succs upt_rec [of _ "numeral k" for k])

lemma seg_walks_wm:
  "filter (\<lambda>p. last p = ''wm_mask'') (concat (map (\<lambda>k. walks k seg_links ''segment'') [0..<6])) =
     [[''segment'', ''wm_t1_to_native'', ''overlap_wm_with_prior'', ''binarize_threshold_wm'',
       ''wm_mask'']]"
  by (simp add: walks_numeral seg_succs upt_rec [of _ "numeral k" for k])

lemma seg_branch_csf:
  "tissue_branch seg_links seg_table ''csf_t1_to_native'' ''csf_mni_to_native''
     ''overlap_csf_with_prior'' ''binarize_threshold_csf'' ''csf_mask'' ''csf_threshold''"
  unfolding tissue_branch_def
  apply (simp only: walks_between [OF seg_walks_end] seg_walks_csf
      upstream_filter [OF seg_upstream_csf])
  apply (simp add: seg_table_def seg_links_def fast_eval)
  done

lemma seg_branch_nodes_csf:
  "branch seg_links ''csf_mask'' =
     {''csf_mask'', ''csf_threshold'', ''csf_mni_to_native'', ''csf_t1_to_native'',
      ''overlap_csf_with_prior'', ''binarize_threshold_csf''}"
  by (simp add: branch_filter [OF seg_upstream_csf])

lemma seg_branch_gm:
  "tissue_branch seg_links seg_table ''gm_t1_to_native'' ''gm_mni_to_native''
     ''overlap_gm_with_prior'' ''binarize_threshold_gm'' ''gm_mask'' ''gm_threshold''"
  unfolding tissue_branch_def
  apply (simp only: walks_between [OF seg_walks_end] seg_walks_gm
      upstream_filter [OF seg_upstream_gm])
  apply (simp add: seg_table_def seg_links_def fast_eval)
  done

lemma seg_branch_nodes_gm:
  "branch seg_links ''gm_mask'' =
     {''gm_mask'', ''gm_threshold'', ''gm_mni_to_native'', ''gm_t1_to_native'',
      ''overlap_gm_with_prior'', ''binarize_threshold_gm''}"
  by (simp add: branch_filter [OF seg_upstream_gm])

lemma seg_branch_wm:
  "tissue_branch seg_links seg_table ''wm_t1_to_native'' ''wm_mni_to_native''
     ''overlap_wm_with_prior'' ''binarize_threshold_wm'' ''wm_mask'' ''wm_threshold''"
  unfolding tissue_branch_def
  apply (simp only: walks_between [OF seg_walks_end] seg_walks_wm
      upstream_filter [OF seg_upstream_wm])
  apply (simp add: seg_table_def seg_links_def fast_eval)
  done

lemma seg_branch_nodes_wm:
  "branch seg_links ''wm_mask'' =
     {''wm_mask'', ''wm_threshold'', ''wm_mni_to_native'', ''wm_t1_to_native'',
      ''overlap_wm_with_prior'', ''binarize_threshold_wm''}"
  by (simp add: branch_filter [OF seg_upstream_wm])

text \<open>
  C1. The workflow returned by \<^verbatim>\<open>create_seg_preproc\<close> has exactly one segmentation node
  (interface FAST, named \<^verbatim>\<open>segment\<close>); its only incoming connection comes from the input
  port \<^verbatim>\<open>inputspec.brain\<close>. Exactly three connections pass the segmentation's
  \<^verbatim>\<open>probability_maps\<close> output through a channel-selecting function: channel 0 into the
  CSF branch, channel 2 into the WM branch and channel 1 into the GM branch. The three
  branches (the nodes upstream of each final mask node, the shared input and segmentation
  nodes apart) have no node in common.
\<close>

theorem seg_one_segmentation_three_branches:
  "map fst (filter (\<lambda>(n, i, it, ps). i = FAST)
       (node_table (fst (run_state create_seg_preproc h)))) = [''segment''] \<and>
   links_into (topology (fst (run_state create_seg_preproc h))) ''segment'' =
     [(''inputspec'', Out ''brain'', ''segment'', ''in_files'')] \<and>
   map (\<lambda>(a, sp, b, dp). (a, channel_of sp, b, dp))
       (filter (\<lambda>(a, sp, b, dp). channel_of sp \<noteq> None)
         (topology (fst (run_state create_seg_preproc h)))) =
     [(''segment'', Some 0, ''csf_t1_to_native'', ''in_file''),
      (''segment'', Some 2, ''wm_t1_to_native'', ''in_file''),
      (''segment'', Some 1, ''gm_t1_to_native'', ''in_file'')] \<and>
   feeds (topology (fst (run_state create_seg_preproc h))) ''csf_t1_to_native'' ''in_file'' =
     [(''segment'', OutFn ''probability_maps'' pick_wm_0)] \<and>
   feeds (topology (fst (run_state create_seg_preproc h))) ''gm_t1_to_native'' ''in_file'' =
     [(''segment'', OutFn ''probability_maps'' pick_wm_1)] \<and>
   feeds (topology (fst (run_state create_seg_preproc h))) ''wm_t1_to_native'' ''in_file'' =
     [(''segment'', OutFn ''probability_maps'' pick_wm_2)] \<and>
   ''csf_t1_to_native'' \<in> branch (topology (fst (run_state create_seg_preproc h))) ''csf_mask'' \<and>
   ''gm_t1_to_native'' \<in> branch (topology (fst (run_state create_seg_preproc h))) ''gm_mask'' \<and>
   ''wm_t1_to_native'' \<in> branch (topology (fst (run_state create_seg_preproc h))) ''wm_mask'' \<and>
   branch (topology (fst (run_state create_seg_preproc h))) ''csf_mask'' \<inter>
     branch (topology (fst (run_state create_seg_preproc h))) ''gm_mask'' = {} \<and>
   branch (topology (fst (run_state create_seg_preproc h))) ''csf_mask'' \<inter>
     branch (topology (fst (run_state create_seg_preproc h))) ''wm_mask'' = {} \<and>
   branch (topology (fst (run_state create_seg_preproc h))) ''gm_mask'' \<inter>
     branch (topology (fst (run_state create_seg_preproc h))) ''wm_mask'' = {}"
  apply (simp only: seg_topology seg_node_table seg_branch_nodes_csf seg_branch_nodes_gm
      seg_branch_nodes_wm)
  apply (simp add: seg_table_def seg_links_def fast_eval)
  done

text \<open>
  C5. In the workflow returned by \<^verbatim>\<open>create_seg_preproc\<close>, each tissue's final mask node has
  upstream of it exactly one linear registration node (FLIRT) and one nonlinear
  registration node (ApplyWarp, nearest-neighbour), whose outputs are the two inputs of
  exactly one masking node; that node feeds exactly one threshold node, which feeds the
  final masking node. The only walk from the segmentation node to the final mask node runs
  through the linear registration, the masking and the threshold node: four connections.
\<close>

theorem seg_tissue_branches:
  "tissue_branch (topology (fst (run_state create_seg_preproc h)))
     (node_table (fst (run_state create_seg_preproc h)))
     ''csf_t1_to_native'' ''csf_mni_to_native'' ''overlap_csf_with_prior''
     ''binarize_threshold_csf'' ''csf_mask'' ''csf_threshold'' \<and>
   tissue_branch (topology (fst (run_state create_seg_preproc h)))
     (node_table (fst (run_state create_seg_preproc h)))
     ''gm_t1_to_native'' ''gm_mni_to_native'' ''overlap_gm_with_prior''
     ''binarize_threshold_gm'' ''gm_mask'' ''gm_threshold'' \<and>
   tissue_branch (topology (fst (run_state create_seg_preproc h)))
     (node_table (fst (run_state create_seg_preproc h)))
     ''wm_t1_to_native'' ''wm_mni_to_native'' ''overlap_wm_with_prior''
     ''binarize_threshold_wm'' ''wm_mask'' ''wm_threshold''"
  by (simp only: seg_topology seg_node_table seg_branch_csf seg_branch_gm seg_branch_wm simp_thms)

section \<open>Properties of the seed-based correlation workflow\<close>

lemma sca_names_distinct: "distinct (node_names (fst (run_state (create_sca m) h)))"
proof (cases "m = ''native''")
  case True
  then show ?thesis
    by (simp add: node_names_table sca_native_node_table sca_native_table_def)
next
  case False
  then show ?thesis
    by (simp add: create_sca_else [OF False] node_names_table sca_mni_node_table sca_mni_table_def)
qed

lemma linked_upstream: "linked t a b \<Longrightarrow> upstream t a b"
  by (simp add: linked_succs succs_upstream)

lemma sca_mni_upstream_time_series:
  "{a. upstream sca_mni_links a ''time_series''} =
     {''inputspec'', ''seed_list_input'', ''warp_to_standard_input_functional''}"
  using upstream_set [where t = sca_mni_links and n = "''time_series''" and hs = "[
    (''inputspec'', ''warp_to_standard_input_functional''),
    (''seed_list_input'', ''time_series''),
    (''warp_to_standard_input_functional'', ''time_series'')]"]
  by (simp add: sca_mni_links_def linked_def)

lemma sca_native_seed_registration:
  "seed_registration_nodes sca_native_links sca_native_table = [''warp_to_native''] \<and>
   interface_of sca_native_table ''warp_to_native'' = Some ApplyWarp \<and>
   input_of sca_native_table ''warp_to_native'' ''interp'' = Some (VStr ''nn'') \<and>
   feeds sca_native_links ''warp_to_native'' ''in_file'' = [(''seed_list_input'', Out ''seed_list'')] \<and>
   feeds sca_native_links ''time_series'' ''mask'' = [(''warp_to_native'', Out ''out_file'')] \<and>
   upstream sca_native_links ''warp_to_native'' ''time_series''"
proof -
  have "linked sca_native_links ''warp_to_native'' ''time_series''"
    by (simp add: sca_native_links_def linked_def)
  then have "upstream sca_native_links ''warp_to_native'' ''time_series''"
    by (rule linked_upstream)
  then show ?thesis
    by (simp add: seed_registration_nodes_def sca_native_links_def sca_native_table_def fast_eval)
qed

lemma sca_mni_seed_registration:
  "seed_registration_nodes sca_mni_links sca_mni_table = [] \<and>
   ''warp_to_native'' \<notin> set (map fst sca_mni_table) \<and>
   feeds sca_mni_links ''time_series'' ''mask'' = [(''seed_list_input'', Out ''seed_list'')] \<and>
   {n. upstream sca_mni_links n ''time_series''} =
     {''inputspec'', ''seed_list_input'', ''warp_to_standard_input_functional''}"
proof -
  have "seed_registration_nodes sca_mni_links sca_mni_table = [] \<and>
      ''warp_to_native'' \<notin> set (map fst sca_mni_table) \<and>
      feeds sca_mni_links ''time_series'' ''mask'' = [(''seed_list_input'', Out ''seed_list'')]"
    by (simp add: seed_registration_nodes_def sca_mni_links_def sca_mni_table_def fast_eval)
  then show ?thesis
    using sca_mni_upstream_time_series by blast
qed

text \<open>
  C2. In the workflow built for mode \<^verbatim>\<open>'native'\<close> there is exactly one seed-registration
  node, \<^verbatim>\<open>warp_to_native\<close>: it runs the warp tool on the seed list, its \<^verbatim>\<open>interp\<close> input is
  fixed to \<^verbatim>\<open>'nn'\<close>, and it is upstream of the time-series extraction node, whose \<^verbatim>\<open>mask\<close>
  port it feeds. For every other mode flag (\<^verbatim>\<open>'mni'\<close> among them) the workflow has no
  seed-registration node, \<^verbatim>\<open>warp_to_native\<close> is not a node of it, the seed list feeds the
  \<^verbatim>\<open>mask\<close> port of the extraction node directly, and the nodes upstream of the extraction
  node are the two input nodes and the registration of the functional image.
\<close>

theorem sca_seed_registration:
  "(if m = ''native'' then
      seed_registration_nodes (topology (fst (run_state (create_sca m) h)))
        (node_table (fst (run_state (create_sca m) h))) = [''warp_to_native''] \<and>
      interface_of (node_table (fst (run_state (create_sca m) h))) ''warp_to_native'' =
        Some ApplyWarp \<and>
      input_of (node_table (fst (run_state (create_sca m) h))) ''warp_to_native'' ''interp'' =
        Some (VStr ''nn'') \<and>
      feeds (topology (fst (run_state (create_sca m) h))) ''warp_to_native'' ''in_file'' =
        [(''seed_list_input'', Out ''seed_list'')] \<and>
      feeds (topology (fst (run_state (create_sca m) h))) ''time_series'' ''mask'' =
        [(''warp_to_native'', Out ''out_file'')] \<and>
      upstream (topology (fst (run_state (create_sca m) h))) ''warp_to_native'' ''time_series''
    else
      seed_registration_nodes (topology (fst (run_state (create_sca m) h)))
        (node_table (fst (run_state (create_sca m) h))) = [] \<and>
      ''warp_to_native'' \<notin> set (node_names (fst (run_state (create_sca m) h))) \<and>
      feeds (topology (fst (run_state (create_sca m) h))) ''time_series'' ''mask'' =
        [(''seed_list_input'', Out ''seed_list'')] \<and>
      {n. upstream (topology (fst (run_state (create_sca m) h))) n ''time_series''} =
        {''inputspec'', ''seed_list_input'', ''warp_to_standard_input_functional''})"
proof (cases "m = ''native''")
  case True
  have "(''native'' = ''native'') = True" by simp
  then show ?thesis
    unfolding True using sca_native_seed_registration
    by (simp only: if_True sca_native_topology sca_native_node_table simp_thms)
next
  case False
  then have "(m = ''native'') = False" by simp
  then show ?thesis
    using sca_mni_seed_registration
    by (simp only: if_False create_sca_else [OF False] sca_mni_topology sca_mni_node_table
        node_names_table simp_thms)
qed

text \<open>
  C6. In the workflow built for mode \<^verbatim>\<open>'mni'\<close>, the functional input of the correlation
  node (\<^verbatim>\<open>corr.in_file\<close>) is fed by exactly one connection, from the workflow's own input
  port \<^verbatim>\<open>inputspec.rest_res_filt\<close>; the copy registered to standard space
  (\<^verbatim>\<open>warp_to_standard_input_functional.out_file\<close>) feeds the time-series extraction only.
\<close>

theorem sca_mni_corr_in_file:
  "feeds (topology (fst (run_state (create_sca ''mni'') h))) ''corr'' ''in_file'' =
     [(''inputspec'', Out ''rest_res_filt'')] \<and>
   links_from (topology (fst (run_state (create_sca ''mni'') h)))
       ''warp_to_standard_input_functional'' =
     [(''warp_to_standard_input_functional'', Out ''out_file'', ''time_series'', ''in_file'')] \<and>
   feeds (topology (fst (run_state (create_sca ''mni'') h)))
       ''warp_to_standard_input_functional'' ''in_file'' =
     [(''inputspec'', Out ''rest_res_filt'')]"
  by (simp add: sca_mni_topology sca_mni_links_def fast_eval)

text \<open>
  C4 (the code at the failing input). For every mode flag, the output ports that receive a
  connection are \<^verbatim>\<open>Z_FWHM\<close> (the smoothed map), \<^verbatim>\<open>correlations\<close> and
  \<^verbatim>\<open>Z_trans_correlations\<close>; the map registered to standard space
  (\<^verbatim>\<open>warp_to_standard.out_file\<close>) is connected to the smoothing node only, and the declared
  output ports \<^verbatim>\<open>Z_2standard\<close> and \<^verbatim>\<open>Z_2standard_FWHM\<close> receive nothing.
\<close>

theorem sca_output_ports:
  "map (\<lambda>(a, sp, b, dp). (a, sp, dp))
       (links_into (topology (fst (run_state (create_sca m) h))) ''outputspec'') =
     [(''smooth_mni'', Out ''out_file'', ''Z_FWHM''),
      (''corr'', Out ''out_file'', ''correlations''),
      (''z_trans'', Out ''out_file'', ''Z_trans_correlations'')] \<and>
   links_from (topology (fst (run_state (create_sca m) h))) ''warp_to_standard'' =
     [(''warp_to_standard'', Out ''out_file'', ''smooth_mni'', ''in_file'')] \<and>
   interface_of (node_table (fst (run_state (create_sca m) h))) ''outputspec'' =
     Some (IdentityInterface [''correlations'', ''Z_trans_correlations'', ''Z_FWHM'',
       ''Z_2standard'', ''Z_2standard_FWHM''])"
proof (cases "m = ''native''")
  case True
  then show ?thesis
    by (simp add: sca_native_topology sca_native_links_def sca_native_node_table
        sca_native_table_def fast_eval)
next
  case False
  then show ?thesis
    by (simp add: create_sca_else [OF False] sca_mni_topology sca_mni_links_def sca_mni_node_table
        sca_mni_table_def fast_eval)
qed

section \<open>Properties of both builders\<close>

lemma shift_isomorphic:
  assumes "\<And>h d. fst (run_state b (h + d)) = rename (\<lambda>i. i + d) (fst (run_state b h))"
  shows "isomorphic (fst (run_state b h)) (fst (run_state b (h + d)))"
proof -
  have "inj_on (\<lambda>i. i + d) (set (map oid (nodes (fst (run_state b h)))))"
    using inj_shift by (rule inj_on_subset) simp
  moreover have "rename (\<lambda>i. i + d) (fst (run_state b h)) = fst (run_state b (h + d))"
    by (rule assms [symmetric])
  ultimately show ?thesis
    unfolding isomorphic_def by blast
qed

lemma node_table_length: "node_table g = node_table g' \<Longrightarrow> length (nodes g) = length (nodes g')"
proof -
  assume "node_table g = node_table g'"
  then have "length (node_table g) = length (node_table g')" by simp
  then show ?thesis by (simp add: node_table_def)
qed

lemma oids_disjoint:
  assumes "map oid (nodes g) = map (\<lambda>k. h + k) ks" "map oid (nodes g') = map (\<lambda>k. h + n + k) ks'"
    and "list_all (\<lambda>k. k < n) ks"
  shows "set (map oid (nodes g)) \<inter> set (map oid (nodes g')) = {}"
proof -
  have "\<forall>x \<in> set (map oid (nodes g)). x < h + n"
    using assms(1, 3) by (auto simp: list_all_iff)
  moreover have "\<forall>x \<in> set (map oid (nodes g')). h + n \<le> x"
    using assms(2) by auto
  ultimately show ?thesis by fastforce
qed

lemma seg_repeat:
  "isomorphic (fst (run_state create_seg_preproc h))
     (fst (run_state create_seg_preproc (snd (run_state create_seg_preproc h)))) \<and>
   set (map oid (nodes (fst (run_state create_seg_preproc h)))) \<inter>
     set (map oid (nodes (fst (run_state create_seg_preproc
       (snd (run_state create_seg_preproc h)))))) = {}"
proof -
  have "list_all (\<lambda>k. k < 21)
      [0, 5, 6, 7, 9, 10, 1, 11, 14, 8, 12, 13, 2, 15, 16, 18, 19, 17, 3, 20, 4::nat]"
    by simp
  then show ?thesis
    using shift_isomorphic [of create_seg_preproc h 21, OF seg_shift]
      oids_disjoint [OF seg_oids [of h] seg_oids [of "h + 21"]]
    by (simp only: seg_heap simp_thms)
qed

lemma sca_native_repeat:
  "isomorphic (fst (run_state (create_sca ''native'') h))
     (fst (run_state (create_sca ''native'') (snd (run_state (create_sca ''native'') h)))) \<and>
   set (map oid (nodes (fst (run_state (create_sca ''native'') h)))) \<inter>
     set (map oid (nodes (fst (run_state (create_sca ''native'')
       (snd (run_state (create_sca ''native'') h)))))) = {}"
proof -
  have "list_all (\<lambda>k. k < 14) [0, 5, 2, 8, 4, 9, 10, 6, 13, 1, 3::nat]"
    by simp
  then show ?thesis
    using shift_isomorphic [of "create_sca ''native''" h 14, OF sca_native_shift]
      oids_disjoint [OF sca_native_oids [of h] sca_native_oids [of "h + 14"]]
    by (simp only: sca_heap simp_thms)
qed

lemma sca_mni_repeat:
  "isomorphic (fst (run_state (create_sca ''mni'') h))
     (fst (run_state (create_sca ''mni'') (snd (run_state (create_sca ''mni'') h)))) \<and>
   set (map oid (nodes (fst (run_state (create_sca ''mni'') h)))) \<inter>
     set (map oid (nodes (fst (run_state (create_sca ''mni'')
       (snd (run_state (create_sca ''mni'') h)))))) = {}"
proof -
  have "list_all (\<lambda>k. k < 14) [0, 7, 8, 4, 2, 9, 10, 6, 13, 1, 3::nat]"
    by simp
  then show ?thesis
    using shift_isomorphic [of "create_sca ''mni''" h 14, OF sca_mni_shift]
      oids_disjoint [OF sca_mni_oids [of h] sca_mni_oids [of "h + 14"]]
    by (simp only: sca_heap simp_thms)
qed

lemma sca_repeat:
  "isomorphic (fst (run_state (create_sca m) h))
     (fst (run_state (create_sca m) (snd (run_state (create_sca m) h)))) \<and>
   set (map oid (nodes (fst (run_state (create_sca m) h)))) \<inter>
     set (map oid (nodes (fst (run_state (create_sca m)
       (snd (run_state (create_sca m) h)))))) = {}"
proof (cases "m = ''native''")
  case True
  then show ?thesis using sca_native_repeat by simp
next
  case False
  then show ?thesis using sca_mni_repeat by (simp only: create_sca_else [OF False])
qed

lemma sca_shape_fixed:
  "node_table (fst (run_state (create_sca m) h)) = node_table (fst (run_state (create_sca m) h')) \<and>
   topology (fst (run_state (create_sca m) h)) = topology (fst (run_state (create_sca m) h'))"
proof (cases "m = ''native''")
  case True
  then show ?thesis by (simp add: sca_native_node_table sca_native_topology)
next
  case False
  then show ?thesis
    by (simp only: create_sca_else [OF False] sca_mni_node_table sca_mni_topology simp_thms)
qed

text \<open>
  C7. A second call of a builder, made in the state the first call left, returns a workflow
  isomorphic to the first one: the same nodes (name, interface, iterated fields, inputs) and
  the same connections, on node objects of their own, none of which is a node object of the
  first workflow. In particular both workflows have the same number of nodes and the same
  topology. This holds for \<^verbatim>\<open>create_seg_preproc\<close> and for \<^verbatim>\<open>create_sca\<close> with one and the same
  mode flag, from every state of the allocator.
\<close>

theorem builders_repeatable:
  "isomorphic (fst (run_state create_seg_preproc h))
     (fst (run_state create_seg_preproc (snd (run_state create_seg_preproc h)))) \<and>
   set (map oid (nodes (fst (run_state create_seg_preproc h)))) \<inter>
     set (map oid (nodes (fst (run_state create_seg_preproc
       (snd (run_state create_seg_preproc h)))))) = {} \<and>
   length (nodes (fst (run_state create_seg_preproc h))) =
     length (nodes (fst (run_state create_seg_preproc (snd (run_state create_seg_preproc h))))) \<and>
   node_table (fst (run_state create_seg_preproc h)) =
     node_table (fst (run_state create_seg_preproc (snd (run_state create_seg_preproc h)))) \<and>
   topology (fst (run_state create_seg_preproc h)) =
     topology (fst (run_state create_seg_preproc (snd (run_state create_seg_preproc h)))) \<and>
   isomorphic (fst (run_state (create_sca m) k))
     (fst (run_state (create_sca m) (snd (run_state (create_sca m) k)))) \<and>
   set (map oid (nodes (fst (run_state (create_sca m) k)))) \<inter>
     set (map oid (nodes (fst (run_state (create_sca m)
       (snd (run_state (create_sca m) k)))))) = {} \<and>
   length (nodes (fst (run_state (create_sca m) k))) =
     length (nodes (fst (run_state (create_sca m) (snd (run_state (create_sca m) k))))) \<and>
   node_table (fst (run_state (create_sca m) k)) =
     node_table (fst (run_state (create_sca m) (snd (run_state (create_sca m) k)))) \<and>
   topology (fst (run_state (create_sca m) k)) =
     topology (fst (run_state (create_sca m) (snd (run_state (create_sca m) k))))"
proof -
  have seg: "node_table (fst (run_state create_seg_preproc h)) =
      node_table (fst (run_state create_seg_preproc (snd (run_state create_seg_preproc h))))"
    by (simp only: seg_node_table)
  have sca: "node_table (fst (run_state (create_sca m) k)) =
      node_table (fst (run_state (create_sca m) (snd (run_state (create_sca m) k))))"
    using sca_shape_fixed by blast
  show ?thesis
    using seg_repeat [of h] sca_repeat [of m k] sca_shape_fixed [of m k] node_table_length [OF seg] node_table_length [OF sca]
      seg sca
    by (simp only: seg_topology simp_thms)
qed

text \<open>
  C8. In the workflow returned by \<^verbatim>\<open>create_seg_preproc\<close>, and in the workflow returned by
  \<^verbatim>\<open>create_sca\<close> for every mode flag, no input port of a node receives more than one
  connection, whatever the state of the allocator when the builder is called.
\<close>

theorem builders_single_writer:
  "single_writer (fst (run_state create_seg_preproc h)) \<and>
   single_writer (fst (run_state (create_sca m) h'))"
proof (cases "m = ''native''")
  case True
  then show ?thesis
    by (simp add: seg_single_writer sca_native_single_writer)
next
  case False
  then show ?thesis
    by (simp add: seg_single_writer create_sca_else [OF False] sca_mni_single_writer)
qed

end
